theory Spec2Isabelle
  imports Complex_Main
begin

section \<open>Python values and library functions\<close>

text \<open>
  Python \<open>str\<close> and \<open>bytes\<close> values are modelled as \<open>string\<close> (lists of 8-bit characters);
  text outside ASCII is not covered. Scores are Python floats in the source. The file
  analyzer, the dynamic analysis and the combined score are modelled over exact
  rationals, each float literal standing for its decimal value. The static analysis of
  the threat detector returns its sum unrounded, so there the sum is taken in double
  precision (\<open>0.2 + 0.4 = 0.6000000000000001\<close>). Logging, \<open>print\<close> and
  the wall clock have no influence on any returned value and are left out. Creating and
  removing the scanner's own directories and writing its own log files is taken to
  succeed.
\<close>

type_synonym bytes = string

text \<open>A dict with string keys and string values, in insertion order.\<close>
type_synonym py_dict = "(string \<times> string) list"

definition backslash :: string where
  "backslash = [CHR 0x5C]"

definition dquote :: string where
  "dquote = [CHR 0x22]"

text \<open>\<open>str.lower()\<close> on ASCII text.\<close>
definition lower_char :: "char \<Rightarrow> char" where
  "lower_char c = (let n = (of_char c :: nat) in if 65 \<le> n \<and> n \<le> 90 then char_of (n + 32) else c)"

definition lower :: "string \<Rightarrow> string" where
  "lower s = map lower_char s"

fun startswith :: "'a list \<Rightarrow> 'a list \<Rightarrow> bool" where
  "startswith s [] = True"
| "startswith [] (p # ps) = False"
| "startswith (c # cs) (p # ps) = (c = p \<and> startswith cs ps)"

text \<open>\<open>contains s pat\<close> is Python's \<open>pat in s\<close> on \<open>str\<close> and \<open>bytes\<close>.\<close>
fun contains :: "'a list \<Rightarrow> 'a list \<Rightarrow> bool" where
  "contains [] pat = (pat = [])"
| "contains (c # cs) pat = (startswith (c # cs) pat \<or> contains cs pat)"

text \<open>\<open>str(n)\<close> for a non-negative integer.\<close>
text \<open>The character of a decimal or hexadecimal digit.\<close>
definition digit_char :: "nat \<Rightarrow> char" where
  "digit_char n = ''0123456789abcdef'' ! n"

fun str_nat :: "nat \<Rightarrow> string" where
  "str_nat n = (if n < 10 then [digit_char n] else str_nat (n div 10) @ [digit_char (n mod 10)])"

declare str_nat.simps [simp del]

text \<open>
  \<open>round(x, 2)\<close>: Python rounds to the nearest multiple of \<open>0.01\<close>, a tie going to the
  even neighbour.
\<close>
definition round_half_even :: "rat \<Rightarrow> int" where
  "round_half_even x =
     (let f = \<lfloor>x\<rfloor>; d = x - of_int f in
      if d < 1 / 2 then f else if 1 / 2 < d then f + 1 else if even f then f else f + 1)"

definition py_round2 :: "rat \<Rightarrow> rat" where
  "py_round2 x = of_int (round_half_even (x * 100)) / 100"

text \<open>
  Double precision. A float is modelled by the rational it is. \<open>ilog2 n\<close> is the
  position of the highest bit of \<open>n\<close>, \<open>binade x\<close> the exponent \<open>k\<close> with
  \<open>2^k \<le> x < 2^(k+1)\<close> for positive \<open>x\<close>; \<open>double_of x\<close> rounds to 53 significant bits,
  a tie going to the even significand, as IEEE 754 does for a float literal and for the
  result of an addition. Overflow and subnormal numbers are left out: the magnitudes
  here are sums of a dozen weights.
\<close>
function ilog2 :: "int \<Rightarrow> int" where
  "ilog2 n = (if n < 2 then 0 else ilog2 (n div 2) + 1)"
  by pat_completeness auto

termination
  by (relation "measure nat") auto

declare ilog2.simps [simp del]

definition binade :: "rat \<Rightarrow> int" where
  "binade x =
     (let (p, q) = quotient_of x;
          k = ilog2 p - ilog2 q
      in if x < 2 powi k then k - 1 else k)"

definition double_of :: "rat \<Rightarrow> rat" where
  "double_of x =
     (if x = 0 then 0
      else
        let e = binade \<bar>x\<bar> - 52;
            m = round_half_even (\<bar>x\<bar> / 2 powi e)
        in sgn x * of_int m * 2 powi e)"

text \<open>\<open>x + y\<close> on floats.\<close>
definition fadd :: "rat \<Rightarrow> rat \<Rightarrow> rat" where
  "fadd x y = double_of (x + y)"

text \<open>The exceptions the scanner raises or catches; all are subclasses of \<open>Exception\<close>.\<close>
datatype exn =
    RuntimeError string
  | FileNotFoundError string
  | PermissionError string
  | AttributeError string
  | ValueError string
  | KeyError string
  | TypeError string
  | OSError string

text \<open>\<open>str(e)\<close>; the path is quoted as \<open>repr\<close> quotes a path without quotes or backslashes.\<close>
fun str_exn :: "exn \<Rightarrow> string" where
  "str_exn (FileNotFoundError p) = ''[Errno 2] No such file or directory: '' @ [CHR 0x27] @ p @ [CHR 0x27]"
| "str_exn (PermissionError p) = ''[Errno 13] Permission denied: '' @ [CHR 0x27] @ p @ [CHR 0x27]"
| "str_exn (RuntimeError m) = m"
| "str_exn (AttributeError m) = m"
| "str_exn (ValueError m) = m"
| "str_exn (KeyError m) = m"
| "str_exn (TypeError m) = m"
| "str_exn (OSError m) = m"

text \<open>\<open>platform.system()\<close>; \<open>core/isolation.py\<close> refuses to import on any other system.\<close>
datatype platform = Windows | Linux | Darwin

fun platform_system :: "platform \<Rightarrow> string" where
  "platform_system Windows = ''Windows''"
| "platform_system Linux = ''Linux''"
| "platform_system Darwin = ''Darwin''"


section \<open>Isolation abstraction layer (\<open>core/isolation.py\<close>)\<close>

text \<open>
  The platform handlers shell out to container engines and sandboxing tools. They are
  external to the scanner, so a handler is a record of the answers it gives: \<open>Inl e\<close>
  when the call raises \<open>e\<close>, \<open>Inr v\<close> when it returns \<open>v\<close>.
\<close>

record proc =
  pid :: int

text \<open>A value in a handler's result: a number, a text, \<open>None\<close> or a dict of such values.\<close>
datatype pyval = PInt int | PStr string | PNone | PDict "(string \<times> pyval) list"

text \<open>
  What the variable \<open>process\<close> can hold: \<open>None\<close>, a process object, or a string, which
  is what unpacking a two-key dict as a pair binds.
\<close>
datatype handle = NoHandle | ProcHandle proc | KeyHandle string

text \<open>
  What an execute call returns: a dict (the container handlers) or a pair of a process
  handle and an output (the process handlers).
\<close>
datatype exec_return =
    RDict "(string \<times> pyval) list"
  | RPair handle pyval

text \<open>
  One entry of \<open>resource_limits\<close> in the loaded configuration: absent, a table from
  security level to value, or a bare number (which has no \<open>get\<close>).
\<close>
datatype 'a limit = Absent | PerLevel "(string \<times> 'a) list" | Scalar 'a

record resource_limits =
  memory_mb :: "int limit"
  cpu_percent :: "int limit"
  network_access :: "bool limit"

record backend =
  check_container_support :: "exn + bool"
  check_isolation_support :: "exn + bool"
  load_resource_limits :: "exn + resource_limits"
  create_container :: "string \<Rightarrow> int \<Rightarrow> int \<Rightarrow> bool \<Rightarrow> exn + string option"
  execute_in_container :: "string option \<Rightarrow> string \<Rightarrow> exn + exec_return"
  remove_container :: "string \<Rightarrow> exn + bool"
  execute_isolated :: "string \<Rightarrow> string \<Rightarrow> exn + exec_return"
  terminate_process :: "handle \<Rightarrow> exn + unit"

text \<open>
  The calls that reach a platform handler, in the order they are made, and the
  \<open>terminate\<close> that the orchestrator sends to a process object after a timeout.
\<close>
datatype backend_call =
    CreateContainer string int int bool
  | ExecuteInContainer "string option" string
  | RemoveContainer string
  | ExecuteIsolated string string
  | TerminateProcess handle
  | PopenTerminate proc

datatype variant = Container | Process

record isolation_env =
  variant :: variant
  env_security_level :: string
  container_id :: "string option"
  process :: handle

text \<open>Both constructors lower-case the level and replace an unknown one by \<open>medium\<close>.\<close>
definition normalize_level :: "string \<Rightarrow> string" where
  "normalize_level security_level =
     (let l = lower security_level in
      if l \<notin> set [''low'', ''medium'', ''high''] then ''medium'' else l)"

definition ContainerIsolation :: "string \<Rightarrow> isolation_env" where
  "ContainerIsolation security_level =
     \<lparr>variant = Container, env_security_level = normalize_level security_level,
      container_id = None, process = NoHandle\<rparr>"

definition ProcessIsolation :: "string \<Rightarrow> isolation_env" where
  "ProcessIsolation security_level =
     \<lparr>variant = Process, env_security_level = normalize_level security_level,
      container_id = None, process = NoHandle\<rparr>"

text \<open>\<open>is_available\<close> turns an exception of the probe into \<open>False\<close>.\<close>
definition is_available :: "backend \<Rightarrow> isolation_env \<Rightarrow> bool" where
  "is_available b env =
     (case variant env of
        Container \<Rightarrow> (case check_container_support b of Inl e \<Rightarrow> False | Inr r \<Rightarrow> r)
      | Process \<Rightarrow> (case check_isolation_support b of Inl e \<Rightarrow> False | Inr r \<Rightarrow> r))"

definition no_isolation :: exn where
  "no_isolation = RuntimeError ''No supported isolation method available.''"

text \<open>
  \<open>get_isolation_environment\<close>. The first component of the result lists the variants that
  were constructed and probed, in order; the second is the environment returned or the
  exception raised.
\<close>
definition get_isolation_environment ::
  "backend \<Rightarrow> string \<Rightarrow> string \<Rightarrow> variant list \<times> (exn + isolation_env)" where
  "get_isolation_environment b method0 security_level =
     (let method = lower method0 in
      if method = ''container'' \<and> is_available b (ContainerIsolation security_level)
      then ([Container], Inr (ContainerIsolation security_level))
      else
        let tried = (if method = ''container'' then [Container] else []) in
        if method = ''process'' \<or> method = ''container''
        then
          (if is_available b (ProcessIsolation security_level)
           then (tried @ [Process], Inr (ProcessIsolation security_level))
           else (tried @ [Process], Inl no_isolation))
        else (tried, Inl no_isolation))"

definition make_variant :: "variant \<Rightarrow> string \<Rightarrow> isolation_env" where
  "make_variant v security_level =
     (case v of Container \<Rightarrow> ContainerIsolation security_level
              | Process \<Rightarrow> ProcessIsolation security_level)"

subsection \<open>The platform handlers (\<open>platforms/linux.py\<close>, \<open>platforms/windows.py\<close>)\<close>

text \<open>
  The handlers run external commands. A host is what those commands answer: whether the
  container runtime answers \<open>version\<close> and is found at all, what \<open>docker run -d\<close>
  prints (\<open>None\<close> when the command fails), how \<open>docker exec\<close> ends, whether \<open>docker rm\<close>
  succeeds, whether firejail and bubblewrap are installed, whether the Windows Sandbox
  feature is enabled, what starting the file directly gives (the process with its output
  and return code, or an exception), what starting Windows Sandbox gives, and the
  resource limits of the configuration file.
\<close>
datatype docker_exec_result =
    Exited string string int
  | TimedOut
  | CommandFailed string
  | NotStarted exn

record host =
  runtime_answers :: bool
  runtime_found :: bool
  docker_run :: "exn + string option"
  docker_exec :: docker_exec_result
  docker_rm :: bool
  firejail :: bool
  bubblewrap :: bool
  windows_sandbox :: "exn + bool"
  popen :: "string \<Rightarrow> exn + proc \<times> string \<times> string \<times> int"
  sandbox_popen :: "exn + proc"
  config_limits :: "exn + resource_limits"

text \<open>The dict in which a handler reports output and exit code.\<close>
definition output_dict :: "string \<Rightarrow> string \<Rightarrow> int \<Rightarrow> (string \<times> pyval) list" where
  "output_dict out err rc = [(''stdout'', PStr out), (''stderr'', PStr err), (''exit_code'', PInt rc)]"

text \<open>
  \<open>LinuxContainerHandler.create_container\<close>: without a runtime it raises; a failing
  \<open>docker run\<close> is caught and gives \<open>None\<close>.
\<close>
definition linux_create_container ::
  "host \<Rightarrow> string \<Rightarrow> int \<Rightarrow> int \<Rightarrow> bool \<Rightarrow> exn + string option" where
  "linux_create_container h security_level memory_limit cpu_limit net =
     (if \<not> runtime_found h then Inl (RuntimeError ''No container runtime found'')
      else docker_run h)"

text \<open>
  The Linux handlers. \<open>LinuxContainerHandler\<close> defines neither \<open>execute_in_container\<close> nor
  \<open>remove_container\<close>, and \<open>LinuxProcessHandler\<close> defines no \<open>execute_isolated\<close>: calling
  them raises \<open>AttributeError\<close>.
\<close>
definition linux_backend :: "host \<Rightarrow> backend" where
  "linux_backend h =
     \<lparr>check_container_support = Inr (runtime_answers h),
      check_isolation_support = Inr (firejail h \<or> bubblewrap h),
      load_resource_limits = config_limits h,
      create_container = linux_create_container h,
      execute_in_container =
        (\<lambda>cid path. Inl (AttributeError
           ''LinuxContainerHandler object has no attribute execute_in_container'')),
      remove_container =
        (\<lambda>cid. Inl (AttributeError
           ''LinuxContainerHandler object has no attribute remove_container'')),
      execute_isolated =
        (\<lambda>path level. Inl (AttributeError
           ''LinuxProcessHandler object has no attribute execute_isolated'')),
      terminate_process = (\<lambda>p. Inr ())\<rparr>"

text \<open>
  \<open>WindowsContainerHandler.execute_in_container\<close>: a timeout and a failed command are
  reported in the returned dict with exit code \<open>-1\<close>; a container id of \<open>None\<close> in the
  command line raises.
\<close>
definition windows_execute_in_container ::
  "host \<Rightarrow> string option \<Rightarrow> string \<Rightarrow> exn + exec_return" where
  "windows_execute_in_container h cid container_path =
     (if cid = None then Inl (TypeError ''expected str, bytes or os.PathLike object, not NoneType'')
      else
        (case docker_exec h of
           Exited out err rc \<Rightarrow> Inr (RDict (output_dict out err rc))
         | TimedOut \<Rightarrow> Inr (RDict (output_dict [] ''Execution timed out'' (- 1)))
         | CommandFailed msg \<Rightarrow> Inr (RDict (output_dict [] msg (- 1)))
         | NotStarted e \<Rightarrow> Inl e))"

text \<open>
  \<open>WindowsProcessHandler.execute_isolated\<close>. With the Windows Sandbox feature enabled and
  a level other than \<open>low\<close> the file is started inside Windows Sandbox; otherwise it is
  started directly on the host. Every exception is caught and reported as the pair of
  \<open>None\<close> and a dict with exit code \<open>-1\<close>.
\<close>
definition windows_execute_isolated :: "host \<Rightarrow> string \<Rightarrow> string \<Rightarrow> exn + exec_return" where
  "windows_execute_isolated h file_path security_level =
     (case windows_sandbox h of
        Inl e \<Rightarrow> Inr (RPair NoHandle (PDict (output_dict [] (str_exn e) (- 1))))
      | Inr available \<Rightarrow>
          if available \<and> security_level \<noteq> ''low''
          then
            (case sandbox_popen h of
               Inl e \<Rightarrow> Inr (RPair NoHandle (PDict (output_dict [] (str_exn e) (- 1))))
             | Inr p \<Rightarrow>
                 Inr (RPair (ProcHandle p)
                        (PDict (output_dict ''Executed in Windows Sandbox - output not available''
                                  [] 0))))
          else
            (case popen h file_path of
               Inl e \<Rightarrow> Inr (RPair NoHandle (PDict (output_dict [] (str_exn e) (- 1))))
             | Inr (p, out, err, rc) \<Rightarrow> Inr (RPair (ProcHandle p) (PDict (output_dict out err rc)))))"

definition windows_backend :: "host \<Rightarrow> backend" where
  "windows_backend h =
     \<lparr>check_container_support = Inr (runtime_answers h),
      check_isolation_support = Inr True,
      load_resource_limits = config_limits h,
      create_container = (\<lambda>security_level memory_limit cpu_limit net. docker_run h),
      execute_in_container = windows_execute_in_container h,
      remove_container = (\<lambda>cid. Inr (docker_rm h)),
      execute_isolated = windows_execute_isolated h,
      terminate_process = (\<lambda>p. Inr ())\<rparr>"

text \<open>
  A host without container runtime on which firejail is installed, and the Linux handlers
  on it: only the process-isolation probe succeeds.
\<close>
definition firejail_host :: host where
  "firejail_host =
     \<lparr>runtime_answers = False, runtime_found = False,
      docker_run = Inl (FileNotFoundError ''docker''),
      docker_exec = NotStarted (FileNotFoundError ''docker''),
      docker_rm = False, firejail = True, bubblewrap = False,
      windows_sandbox = Inr False,
      popen = (\<lambda>path. Inl (PermissionError path)),
      sandbox_popen = Inl (FileNotFoundError ''WindowsSandbox''),
      config_limits = Inl (OSError ''no configuration'')\<rparr>"

definition process_only_backend :: backend where
  "process_only_backend = linux_backend firejail_host"

text \<open>A handler on which no probe succeeds.\<close>
definition no_backend :: backend where
  "no_backend = process_only_backend\<lparr>check_isolation_support := Inr False\<rparr>"


section \<open>The operating system as the scanner sees it\<close>

text \<open>
  A path names a file with its bytes, or nothing. \<open>readable\<close> says whether \<open>open\<close>
  succeeds, \<open>executable\<close> is \<open>os.access(path, os.X_OK)\<close>. The functions of \<open>os.path\<close>,
  the digests of \<open>hashlib\<close> and the random id of \<open>uuid\<close> are library code: they are
  fields of the environment, and every theorem holds for any choice of them.
\<close>

record fs_file =
  content :: bytes
  readable :: bool
  executable :: bool

record os_env =
  system :: platform
  fs :: "string \<Rightarrow> fs_file option"
  basename :: "string \<Rightarrow> string"
  splitext :: "string \<Rightarrow> string \<times> string"
  join :: "string \<Rightarrow> string \<Rightarrow> string"
  sha256_hex :: "bytes \<Rightarrow> string"
  md5_hex :: "bytes \<Rightarrow> string"
  uuid4 :: string
  sandbox_root :: string

definition exists :: "os_env \<Rightarrow> string \<Rightarrow> bool" where
  "exists env path = (fs env path \<noteq> None)"

text \<open>\<open>open(path, 'rb').read()\<close>, and likewise the source side of \<open>shutil.copy\<close>.\<close>
definition open_read :: "os_env \<Rightarrow> string \<Rightarrow> exn + bytes" where
  "open_read env path =
     (case fs env path of
        None \<Rightarrow> Inl (FileNotFoundError path)
      | Some f \<Rightarrow> if readable f then Inr (content f) else Inl (PermissionError path))"

text \<open>The POSIX flavour of \<open>os.path\<close>, for concrete environments.\<close>
definition posix_basename :: "string \<Rightarrow> string" where
  "posix_basename p = rev (takeWhile (\<lambda>c. c \<noteq> CHR ''/'') (rev p))"

definition posix_splitext :: "string \<Rightarrow> string \<times> string" where
  "posix_splitext p =
     (let name = posix_basename p;
          dir = take (length p - length name) p;
          ext_rev = takeWhile (\<lambda>c. c \<noteq> CHR ''.'') (rev name)
      in if CHR ''.'' \<in> set name then
           (let stem = take (length name - length ext_rev - 1) name in
            if \<exists>c \<in> set stem. c \<noteq> CHR ''.'' then (dir @ stem, CHR ''.'' # rev ext_rev)
            else (p, []))
         else (p, []))"

definition posix_join :: "string \<Rightarrow> string \<Rightarrow> string" where
  "posix_join a b =
     (if startswith b ''/'' then b
      else if a = [] \<or> last a = CHR ''/'' then a @ b
      else a @ ''/'' @ b)"

text \<open>
  The Windows flavour of \<open>os.path\<close>, for paths with a drive letter or without a drive;
  UNC paths are left out.
\<close>
definition nt_sep :: "char \<Rightarrow> bool" where
  "nt_sep c = (c = CHR 0x5C \<or> c = CHR ''/'')"

definition nt_splitdrive :: "string \<Rightarrow> string \<times> string" where
  "nt_splitdrive p =
     (if 2 \<le> length p \<and> p ! 1 = CHR '':'' then (take 2 p, drop 2 p) else ([], p))"

definition nt_basename :: "string \<Rightarrow> string" where
  "nt_basename p = rev (takeWhile (\<lambda>c. \<not> nt_sep c) (rev (snd (nt_splitdrive p))))"

definition nt_splitext :: "string \<Rightarrow> string \<times> string" where
  "nt_splitext p =
     (let name = rev (takeWhile (\<lambda>c. \<not> nt_sep c) (rev p));
          dir = take (length p - length name) p;
          ext_rev = takeWhile (\<lambda>c. c \<noteq> CHR ''.'') (rev name)
      in if CHR ''.'' \<in> set name then
           (let stem = take (length name - length ext_rev - 1) name in
            if \<exists>c \<in> set stem. c \<noteq> CHR ''.'' then (dir @ stem, CHR ''.'' # rev ext_rev)
            else (p, []))
         else (p, []))"

definition nt_join :: "string \<Rightarrow> string \<Rightarrow> string" where
  "nt_join a b =
     (let (ad, ap) = nt_splitdrive a;
          (bd, bp) = nt_splitdrive b
      in if bp \<noteq> [] \<and> nt_sep (hd bp) then (if bd \<noteq> [] \<or> ad = [] then bd else ad) @ bp
         else if bd \<noteq> [] \<and> lower bd \<noteq> lower ad then b
         else (if bd \<noteq> [] then bd else ad)
              @ (if ap \<noteq> [] \<and> \<not> nt_sep (last ap) then ap @ backslash @ bp else ap @ bp))"

definition posix_env :: "(string \<Rightarrow> fs_file option) \<Rightarrow> os_env" where
  "posix_env files =
     \<lparr>system = Linux, fs = files, basename = posix_basename, splitext = posix_splitext,
      join = posix_join, sha256_hex = (\<lambda>b. ''sha256''), md5_hex = (\<lambda>b. ''md5''),
      uuid4 = ''00000000-0000-4000-8000-000000000000'',
      sandbox_root = ''/home/user/.saferun/sandbox''\<rparr>"


section \<open>Threat detector (\<open>core/threat_detector.py\<close>)\<close>

datatype ThreatLevel = NONE | LOW | MEDIUM | HIGH | CRITICAL

text \<open>The \<open>name\<close> of an enum member.\<close>
fun level_name :: "ThreatLevel \<Rightarrow> string" where
  "level_name NONE = ''NONE''"
| "level_name LOW = ''LOW''"
| "level_name MEDIUM = ''MEDIUM''"
| "level_name HIGH = ''HIGH''"
| "level_name CRITICAL = ''CRITICAL''"

definition from_string :: "string \<Rightarrow> ThreatLevel" where
  "from_string level_str =
     (case map_of [(''none'', NONE), (''low'', LOW), (''medium'', MEDIUM), (''high'', HIGH),
                   (''critical'', CRITICAL)] (lower level_str) of
        Some l \<Rightarrow> l
      | None \<Rightarrow> NONE)"

record ThreatSignature =
  sig_id :: string
  sig_name :: string
  description :: string
  indicators :: "string list"
  severity :: ThreatLevel
  category :: string
  platforms :: "string list"

text \<open>
  The constructor takes the severity as an enum member (\<open>Inl\<close>) or as a string (\<open>Inr\<close>),
  which \<open>from_string\<close> converts; \<open>from_dict\<close> passes the string of the dict.
\<close>
definition ThreatSignature_init ::
  "string \<Rightarrow> string \<Rightarrow> string \<Rightarrow> string list \<Rightarrow> ThreatLevel + string \<Rightarrow> string \<Rightarrow> string list
    \<Rightarrow> ThreatSignature" where
  "ThreatSignature_init i n d inds sev cat plats =
     \<lparr>sig_id = i, sig_name = n, description = d, indicators = inds,
      severity = (case sev of Inl l \<Rightarrow> l | Inr s \<Rightarrow> from_string s),
      category = cat, platforms = plats\<rparr>"

text \<open>
  The findings of a scan are dicts of four shapes: \<open>{type, details, confidence}\<close> and
  \<open>{type: keyword, details, level}\<close> from \<open>analyze_file\<close>,
  \<open>{signature_id, signature_name, threat_level, category, details}\<close> from
  \<open>analyze_report\<close>, and \<open>{signature_name, threat_level, details}\<close> from the file analyzer.
\<close>
datatype threat =
    TypedThreat string string rat
  | KeywordThreat string string
  | SignatureThreat string string string string string
  | AnalyzerThreat string rat string

text \<open>The value under the key \<open>type\<close>, if the finding has one.\<close>
fun threat_type :: "threat \<Rightarrow> string option" where
  "threat_type (TypedThreat t d c) = Some t"
| "threat_type (KeywordThreat d l) = Some ''keyword''"
| "threat_type (SignatureThreat i n l c d) = None"
| "threat_type (AnalyzerThreat n l d) = None"

record detector_result =
  threat_score :: rat
  threats :: "threat list"

record ThreatDetector =
  signatures :: "ThreatSignature list"
  td_security_level :: string
  td_isolation_method :: string
  td_isolation_env :: isolation_env
  detection_sensitivity :: rat

definition load_signatures :: "ThreatSignature list" where
  "load_signatures =
     [ThreatSignature_init ''SIG-001'' ''System File Access'' ''Accesses sensitive system files''
        [''/etc/passwd'',
         ''C:'' @ backslash @ ''Windows'' @ backslash @ ''System32'' @ backslash @ ''config'']
        (Inl HIGH) ''File Access'' [''linux'', ''windows'', ''macos''],
      ThreatSignature_init ''SIG-002'' ''Registry Modification'' ''Modifies autorun registry keys''
        [''HKEY_LOCAL_MACHINE'' @ backslash @ ''Software'' @ backslash @ ''Microsoft''
           @ backslash @ ''Windows'' @ backslash @ ''CurrentVersion'' @ backslash @ ''Run'']
        (Inl MEDIUM) ''Registry Modification'' [''windows''],
      ThreatSignature_init ''SIG-003'' ''Suspicious Network Connection''
        ''Connects to common malicious ports or domains''
        ['':4444'', '':1337'', '':31337'', '':8080'', ''malicious.example.com'']
        (Inl HIGH) ''Network Activity'' [''all'']]"

text \<open>
  The constructor selects an isolation environment before it loads the signatures, so it
  raises when the selection raises. The first component is the selector's probe log.
\<close>
definition ThreatDetector_init ::
  "backend \<Rightarrow> string \<Rightarrow> string option \<Rightarrow> variant list \<times> (exn + ThreatDetector)" where
  "ThreatDetector_init b security_level isolation_method =
     (let method = (case isolation_method of
                      None \<Rightarrow> ''container''
                    | Some m \<Rightarrow> if m = [] then ''container'' else m);
          (probed, r) = get_isolation_environment b method security_level
      in case r of
           Inl e \<Rightarrow> (probed, Inl e)
         | Inr env \<Rightarrow>
             (probed,
              Inr \<lparr>signatures = load_signatures,
                   td_security_level = security_level,
                   td_isolation_method = method,
                   td_isolation_env = env,
                   detection_sensitivity =
                     (case map_of [(''low'', 3 / 10), (''medium'', 5 / 10), (''high'', 7 / 10)]
                             (lower security_level) of
                        Some s \<Rightarrow> s
                      | None \<Rightarrow> 5 / 10)\<rparr>))"

subsection \<open>Static analysis of a file\<close>

definition keyword_table :: "(bytes \<times> ThreatLevel) list" where
  "keyword_table =
     [(''cmd.exe'', MEDIUM), (''powershell'', MEDIUM), (''CreateProcess'', HIGH),
      (''WriteProcessMemory'', HIGH), (''curl'', LOW), (''wget'', LOW), (''socket'', MEDIUM),
      (''registry'', MEDIUM), (''os.system'', MEDIUM), (''eval'', HIGH), (''exec'', HIGH),
      (''malicious.example.com'', HIGH)]"

text \<open>The weight table of the keyword loop, looked up with default \<open>0.1\<close>.\<close>
definition keyword_weight :: "ThreatLevel \<Rightarrow> rat" where
  "keyword_weight level =
     (case map_of [(CRITICAL, 1), (HIGH, 4 / 10), (MEDIUM, 2 / 10), (LOW, 1 / 10)] level of
        Some w \<Rightarrow> w
      | None \<Rightarrow> 1 / 10)"

text \<open>
  The loop over the keyword table, carrying the score and the findings, over exact
  decimals: it states what each keyword found contributes.
\<close>
fun scan_keywords ::
  "bytes \<Rightarrow> (bytes \<times> ThreatLevel) list \<Rightarrow> rat \<times> threat list \<Rightarrow> rat \<times> threat list" where
  "scan_keywords cont [] acc = acc"
| "scan_keywords cont ((kw, level) # rest) (score, ts) =
     (if contains cont kw
      then scan_keywords cont rest
             (score + keyword_weight level, ts @ [KeywordThreat kw (level_name level)])
      else scan_keywords cont rest (score, ts))"

text \<open>
  The same loop as \<open>analyze_file\<close> runs it: the score is a float, each weight is the float
  its literal denotes, and \<open>+=\<close> rounds.
\<close>
fun scan_keywords_float ::
  "bytes \<Rightarrow> (bytes \<times> ThreatLevel) list \<Rightarrow> rat \<times> threat list \<Rightarrow> rat \<times> threat list" where
  "scan_keywords_float cont [] acc = acc"
| "scan_keywords_float cont ((kw, level) # rest) (score, ts) =
     (if contains cont kw
      then scan_keywords_float cont rest
             (fadd score (double_of (keyword_weight level)),
              ts @ [KeywordThreat kw (level_name level)])
      else scan_keywords_float cont rest (score, ts))"

text \<open>
  \<open>analyze_file\<close>. The score starts at \<open>0.0\<close> and is returned as \<open>min(score, 1.0)\<close> without
  rounding; the confidence of a finding is the float of its literal.
\<close>
definition analyze_file :: "os_env \<Rightarrow> string \<Rightarrow> detector_result" where
  "analyze_file env file_path =
     (let ext = lower (snd (splitext env file_path));
          start =
            (if ext \<in> set [''.exe'', ''.dll'', ''.bat'', ''.ps1'']
             then (fadd 0 (double_of (2 / 10)),
                   [TypedThreat ''extension'' ext (double_of (8 / 10))])
             else if ext \<in> set [''.py'', ''.js'', ''.vba'']
             then (fadd 0 (double_of (1 / 10)),
                   [TypedThreat ''script'' ext (double_of (6 / 10))])
             else (0, []));
          (score, ts) =
            (case open_read env file_path of
               Inr cont \<Rightarrow> scan_keywords_float cont keyword_table start
             | Inl e \<Rightarrow>
                 (fst start,
                  snd start @ [TypedThreat ''error'' (str_exn e) (double_of (1 / 10))]))
      in \<lparr>threat_score = min score 1, threats = ts\<rparr>)"

subsection \<open>Dynamic analysis of an activity report\<close>

text \<open>
  The dict that \<open>stop_monitoring\<close> returns. The orchestrator passes \<open>{}\<close> when nothing was
  monitored; \<open>None\<close> stands for that empty dict.
\<close>
record activity_report =
  file_operations :: "py_dict list"
  network_activity :: "py_dict list"
  registry_operations :: "py_dict list"
  r_threat_score :: int

text \<open>\<open>json.dumps\<close> of a dict of strings, with the escapes of the standard encoder.\<close>
definition json_escape_char :: "char \<Rightarrow> string" where
  "json_escape_char c =
     (if c = CHR 0x22 then backslash @ dquote
      else if c = CHR 0x5C then backslash @ backslash
      else if c = CHR 0x0A then backslash @ ''n''
      else if c = CHR 0x0D then backslash @ ''r''
      else if c = CHR 0x09 then backslash @ ''t''
      else if c = CHR 0x08 then backslash @ ''b''
      else if c = CHR 0x0C then backslash @ ''f''
      else if (of_char c :: nat) < 32
      then backslash @ ''u00'' @ [digit_char (of_char c div 16), digit_char (of_char c mod 16)]
      else [c])"

definition json_string :: "string \<Rightarrow> string" where
  "json_string s = dquote @ concat (map json_escape_char s) @ dquote"

fun join_with :: "string \<Rightarrow> string list \<Rightarrow> string" where
  "join_with sep [] = []"
| "join_with sep [x] = x"
| "join_with sep (x # y # ys) = x @ sep @ join_with sep (y # ys)"

definition json_dumps :: "py_dict \<Rightarrow> string" where
  "json_dumps d =
     ''{'' @ join_with '', '' (map (\<lambda>(k, v). json_string k @ '': '' @ json_string v) d) @ ''}''"

text \<open>The weight table of the signature loop, looked up with default \<open>0.1\<close>.\<close>
definition signature_weight :: "ThreatLevel \<Rightarrow> rat" where
  "signature_weight level =
     (case map_of [(CRITICAL, 1), (HIGH, 4 / 10), (MEDIUM, 2 / 10), (LOW, 1 / 10)] level of
        Some w \<Rightarrow> w
      | None \<Rightarrow> 1 / 10)"

text \<open>A signature is skipped when neither the running system nor \<open>all\<close> is among its platforms.\<close>
definition applies_to :: "platform \<Rightarrow> ThreatSignature \<Rightarrow> bool" where
  "applies_to sys sg =
     (\<not> (lower (platform_system sys) \<notin> set (map lower (platforms sg))
         \<and> ''all'' \<notin> set (platforms sg)))"

text \<open>The inner loop with its \<open>break\<close>: the first indicator found in the record's text.\<close>
fun first_indicator :: "string \<Rightarrow> string list \<Rightarrow> string option" where
  "first_indicator data_str [] = None"
| "first_indicator data_str (i # inds) =
     (if contains data_str (lower i) then Some i else first_indicator data_str inds)"

fun match_signatures ::
  "platform \<Rightarrow> string \<Rightarrow> ThreatSignature list \<Rightarrow> rat \<times> threat list \<Rightarrow> rat \<times> threat list" where
  "match_signatures sys data_str [] acc = acc"
| "match_signatures sys data_str (sg # sigs) (score, ts) =
     (if \<not> applies_to sys sg then match_signatures sys data_str sigs (score, ts)
      else
        (case first_indicator data_str (indicators sg) of
           None \<Rightarrow> match_signatures sys data_str sigs (score, ts)
         | Some ind \<Rightarrow>
             match_signatures sys data_str sigs
               (score + signature_weight (severity sg),
                ts @ [SignatureThreat (sig_id sg) (sig_name sg) (level_name (severity sg))
                        (category sg) ind])))"

fun scan_entries ::
  "platform \<Rightarrow> ThreatSignature list \<Rightarrow> py_dict list \<Rightarrow> rat \<times> threat list \<Rightarrow> rat \<times> threat list" where
  "scan_entries sys sigs [] acc = acc"
| "scan_entries sys sigs (entry # entries) acc =
     scan_entries sys sigs entries (match_signatures sys (lower (json_dumps entry)) sigs acc)"

definition all_entries :: "activity_report option \<Rightarrow> py_dict list" where
  "all_entries report =
     (case report of
        None \<Rightarrow> []
      | Some r \<Rightarrow> file_operations r @ network_activity r @ registry_operations r)"

definition analyze_report ::
  "platform \<Rightarrow> ThreatDetector \<Rightarrow> activity_report option \<Rightarrow> detector_result" where
  "analyze_report sys self report =
     (let (score, ts) = scan_entries sys (signatures self) (all_entries report) (0, [])
      in \<lparr>threat_score = min score 1, threats = ts\<rparr>)"


section \<open>File analyzer (\<open>utils/file_analyzer.py\<close>)\<close>

text \<open>\<open>settings.EXECUTABLE_EXTENSIONS.get(settings.PLATFORM, [])\<close>.\<close>
fun EXECUTABLE_EXTENSIONS :: "platform \<Rightarrow> string list" where
  "EXECUTABLE_EXTENSIONS Windows = [''.exe'', ''.bat'', ''.cmd'', ''.msi'', ''.ps1'', ''.vbs'']"
| "EXECUTABLE_EXTENSIONS Linux = [''.sh'', ''.bin'', ''.run'', ''.AppImage'']"
| "EXECUTABLE_EXTENSIONS Darwin = [''.app'', ''.sh'', ''.command'', ''.tool'']"

definition os_access_x :: "os_env \<Rightarrow> string \<Rightarrow> bool" where
  "os_access_x env path = (case fs env path of None \<Rightarrow> False | Some f \<Rightarrow> executable f)"

definition is_executable_file :: "os_env \<Rightarrow> string \<Rightarrow> string \<Rightarrow> bool" where
  "is_executable_file env file_path file_ext =
     (if file_ext \<in> set (EXECUTABLE_EXTENSIONS (system env)) then True
      else if system env \<in> {Linux, Darwin} then os_access_x env file_path
      else False)"

text \<open>
  The seven regular expressions of the script check are alternations of literal texts,
  one of them followed by \<open>\s+\<close>; they are searched ignoring case. An alternative is a
  literal, or a literal that must be followed by a whitespace character.
\<close>
datatype alternative = Lit string | LitSpace string

definition whitespace :: "char list" where
  "whitespace = [CHR 0x20, CHR 0x09, CHR 0x0A, CHR 0x0B, CHR 0x0C, CHR 0x0D,
                 CHR 0x1C, CHR 0x1D, CHR 0x1E, CHR 0x1F]"

fun alternative_found :: "string \<Rightarrow> alternative \<Rightarrow> bool" where
  "alternative_found text (Lit l) = contains (lower text) (lower l)"
| "alternative_found text (LitSpace l) =
     (\<exists>w \<in> set whitespace. contains (lower text) (lower l @ [w]))"

definition re_search :: "alternative list \<Rightarrow> string \<Rightarrow> bool" where
  "re_search pattern text = (\<exists>a \<in> set pattern. alternative_found text a)"

definition script_patterns :: "(string \<times> alternative list) list" where
  "script_patterns =
     [(''Obfuscation'', [Lit ''eval('', Lit ''exec('', Lit ''base64.decode'', Lit ''fromCharCode'']),
      (''System Access'',
         [Lit ''subprocess.call'', Lit ''os.system'', LitSpace ''exec'', Lit ''runtime.exec'']),
      (''Privilege Escalation'', [Lit ''sudo'', Lit ''runas'', Lit ''powershell -command'']),
      (''Network Connection'',
         [Lit ''socket.connect'', Lit ''http://'', Lit ''https://'', Lit ''urllib'',
          Lit ''requests.get'', Lit ''curl '', Lit ''wget '']),
      (''Data Exfiltration'',
         [Lit ''.upload('', Lit ''POST http'', Lit ''ftp.put'', Lit ''send('', Lit ''mail('']),
      (''Registry Access'',
         [Lit ''HKEY_'', Lit ''Registry.'', Lit ''RegCreateKey'', Lit ''RegSetKey'']),
      (''Browser Exploit'',
         [Lit ''navigator.userAgent'', Lit ''document.cookie'', Lit ''localStorage'',
          Lit ''sessionStorage''])]"

text \<open>A file that cannot be read yields no pattern: the exception is swallowed.\<close>
definition check_script_for_suspicious_patterns :: "os_env \<Rightarrow> string \<Rightarrow> string list" where
  "check_script_for_suspicious_patterns env file_path =
     (case open_read env file_path of
        Inl e \<Rightarrow> []
      | Inr cont \<Rightarrow>
          map (\<lambda>(name, pattern). ''Suspicious '' @ name @ '' pattern'')
            (filter (\<lambda>(name, pattern). re_search pattern cont) script_patterns))"

definition calculate_hash :: "os_env \<Rightarrow> string \<Rightarrow> string \<Rightarrow> exn + string" where
  "calculate_hash env file_path algorithm =
     (case open_read env file_path of
        Inl e \<Rightarrow> Inl e
      | Inr cont \<Rightarrow> Inr (if algorithm = ''md5'' then md5_hex env cont else sha256_hex env cont))"

text \<open>
  The dict that \<open>analyze\<close> returns has one of three sets of keys; a key that is absent
  is \<open>None\<close> here, and \<open>threat_level\<close> is always present.
\<close>
record analysis_result =
  ar_error :: "string option"
  ar_filename :: "string option"
  ar_file_size :: "nat option"
  ar_file_extension :: "string option"
  ar_file_type :: "string option"
  ar_file_hash :: "string option"
  ar_md5_hash :: "string option"
  ar_is_executable :: "bool option"
  ar_threat_level :: rat
  ar_threats :: "threat list option"

definition not_found_result :: analysis_result where
  "not_found_result =
     \<lparr>ar_error = Some ''File not found'', ar_filename = None, ar_file_size = None,
      ar_file_extension = None, ar_file_type = None, ar_file_hash = None, ar_md5_hash = None,
      ar_is_executable = None, ar_threat_level = 0, ar_threats = None\<rparr>"

definition failed_result :: "os_env \<Rightarrow> string \<Rightarrow> exn \<Rightarrow> analysis_result" where
  "failed_result env file_path e =
     \<lparr>ar_error = Some (''Analysis failed: '' @ str_exn e),
      ar_filename = Some (basename env file_path), ar_file_size = None,
      ar_file_extension = None, ar_file_type = None, ar_file_hash = None, ar_md5_hash = None,
      ar_is_executable = None, ar_threat_level = 5 / 10, ar_threats = Some []\<rparr>"

text \<open>The findings of the script check, one per pattern found, each worth \<open>0.1\<close>.\<close>
fun pattern_findings :: "string list \<Rightarrow> rat \<times> threat list \<Rightarrow> rat \<times> threat list" where
  "pattern_findings [] acc = acc"
| "pattern_findings (pattern # rest) (score, ts) =
     pattern_findings rest
       (score + 1 / 10,
        ts @ [AnalyzerThreat pattern (1 / 10) (''Suspicious pattern found: '' @ pattern)])"

text \<open>
  The scoring block of \<open>analyze\<close>: \<open>0.3\<close> for an executable, \<open>0.1\<close> for a script and
  \<open>0.1\<close> for each suspicious pattern found in a script.
\<close>
definition score_file :: "os_env \<Rightarrow> string \<Rightarrow> string \<Rightarrow> bool \<Rightarrow> rat \<times> threat list" where
  "score_file env file_path file_ext is_exec =
     (let s1 = (if is_exec
                then (3 / 10,
                      [AnalyzerThreat ''Executable file detected'' (3 / 10)
                         ''The file is an executable, which could perform system-level operations.''])
                else (0, []))
      in if file_ext \<in> set [''.sh'', ''.py'', ''.bat'', ''.ps1'']
         then pattern_findings (check_script_for_suspicious_patterns env file_path)
                (fst s1 + 1 / 10,
                 snd s1 @ [AnalyzerThreat ''Script file detected'' (1 / 10)
                   ''Script files may contain commands that alter system behavior.''])
         else s1)"

definition analyze :: "os_env \<Rightarrow> string \<Rightarrow> analysis_result" where
  "analyze env file_path =
     (if \<not> exists env file_path then not_found_result
      else
        let file_name = basename env file_path;
            file_ext = lower (snd (splitext env file_name))
        in case calculate_hash env file_path ''md5'' of
             Inl e \<Rightarrow> failed_result env file_path e
           | Inr md5 \<Rightarrow>
          (case calculate_hash env file_path ''sha256'' of
             Inl e \<Rightarrow> failed_result env file_path e
           | Inr sha256 \<Rightarrow>
               let is_exec = is_executable_file env file_path file_ext;
                   scored = score_file env file_path file_ext is_exec
               in \<lparr>ar_error = None,
                   ar_filename = Some file_name,
                   ar_file_size = map_option (\<lambda>f. length (content f)) (fs env file_path),
                   ar_file_extension = Some file_ext,
                   ar_file_type = Some (''Unknown (extension: '' @ file_ext @ '')''),
                   ar_file_hash = Some sha256,
                   ar_md5_hash = Some md5,
                   ar_is_executable = Some is_exec,
                   ar_threat_level = py_round2 (min (fst scored) 1),
                   ar_threats = Some (snd scored)\<rparr>))"


section \<open>Process monitor (\<open>core/monitor.py\<close>)\<close>

text \<open>
  The monitor polls a live process from a background thread. The model runs the polling
  loop sequentially over the samples the thread would take, one per tick; a sample holds
  what \<open>psutil\<close> answers at that tick (\<open>Inl\<close> when the call raises). Every observed item
  carries the clock reading that \<open>datetime.now().isoformat()\<close> would give when the loop
  reaches it.
\<close>

record connection =
  status :: string
  raddr :: "(string \<times> nat) option"

record sample =
  is_running :: bool
  open_files :: "exn + (string \<times> string) list"
  connections :: "exn + (string \<times> connection) list"
  memory_maps :: "exn + (string \<times> string) list"

record ProcessMonitor =
  m_pid :: "int option"
  m_threat_score :: int
  file_accesses :: "py_dict list"
  network_connections :: "py_dict list"
  registry_activities :: "py_dict list"
  monitoring :: bool

definition ProcessMonitor_init :: ProcessMonitor where
  "ProcessMonitor_init =
     \<lparr>m_pid = None, m_threat_score = 0, file_accesses = [], network_connections = [],
      registry_activities = [], monitoring = False\<rparr>"

definition suspicious_files :: "string list" where
  "suspicious_files =
     [''C:'' @ backslash @ ''Windows'' @ backslash @ ''System32'' @ backslash @ ''config'',
      ''/etc/passwd'']"

definition suspicious_network :: "string list" where
  "suspicious_network = [''malicious.example.com'', '':4444'', '':1337'', '':31337'']"

definition suspicious_registry :: "string list" where
  "suspicious_registry =
     [''HKEY_LOCAL_MACHINE'' @ backslash @ ''SOFTWARE'' @ backslash @ ''Microsoft'' @ backslash
        @ ''Windows'' @ backslash @ ''CurrentVersion'' @ backslash @ ''Run'',
      ''HKEY_CURRENT_USER'' @ backslash @ ''Software'' @ backslash @ ''Microsoft'' @ backslash
        @ ''Windows'' @ backslash @ ''CurrentVersion'' @ backslash @ ''Run'']"

text \<open>
  \<open>any(d[key] == v for d in records)\<close>: a record without the key raises \<open>KeyError\<close> when
  the scan reaches it.
\<close>
fun any_key_equals :: "string \<Rightarrow> string \<Rightarrow> py_dict list \<Rightarrow> exn + bool" where
  "any_key_equals key v [] = Inr False"
| "any_key_equals key v (d # ds) =
     (case map_of d key of
        None \<Rightarrow> Inl (KeyError key)
      | Some x \<Rightarrow> if x = v then Inr True else any_key_equals key v ds)"

text \<open>\<open>any(d.get(key) == v for d in records)\<close>.\<close>
definition any_get_equals :: "string \<Rightarrow> string \<Rightarrow> py_dict list \<Rightarrow> bool" where
  "any_get_equals key v ds = (\<exists>d \<in> set ds. map_of d key = Some v)"

text \<open>The loop \<open>for pattern in patterns: if pattern in text: score += points\<close>.\<close>
fun add_points :: "int \<Rightarrow> string list \<Rightarrow> string \<Rightarrow> int \<Rightarrow> int" where
  "add_points points [] text score = score"
| "add_points points (pattern # rest) text score =
     add_points points rest text (if contains text pattern then score + points else score)"

text \<open>
  The loop of \<open>_monitor_file_activity\<close> over the open files. An exception ends the loop
  and is swallowed; what was recorded before it stays.
\<close>
fun file_activity_loop :: "(string \<times> string) list \<Rightarrow> ProcessMonitor \<Rightarrow> ProcessMonitor" where
  "file_activity_loop [] self = self"
| "file_activity_loop ((now, path) # rest) self =
     (case any_key_equals ''path'' path (file_accesses self) of
        Inl e \<Rightarrow> self
      | Inr seen \<Rightarrow>
          if \<not> seen
          then file_activity_loop rest
                 (self\<lparr>file_accesses :=
                         file_accesses self @ [[(''timestamp'', now), (''path'', path)]],
                       m_threat_score :=
                         add_points 10 suspicious_files path (m_threat_score self)\<rparr>)
          else file_activity_loop rest self)"

definition monitor_file_activity :: "sample \<Rightarrow> ProcessMonitor \<Rightarrow> ProcessMonitor" where
  "monitor_file_activity smp self =
     (case open_files smp of Inl e \<Rightarrow> self | Inr files \<Rightarrow> file_activity_loop files self)"

definition remote_of :: "string \<times> nat \<Rightarrow> string" where
  "remote_of addr = fst addr @ '':'' @ str_nat (snd addr)"

text \<open>
  The loop of \<open>_monitor_network_activity\<close>. The pattern loop follows the \<open>if not any(...)\<close>
  block at the same depth, so it runs for every established connection with a remote
  address, recorded before or not.
\<close>
fun network_activity_loop ::
  "(string \<times> connection) list \<Rightarrow> ProcessMonitor \<Rightarrow> ProcessMonitor" where
  "network_activity_loop [] self = self"
| "network_activity_loop ((now, conn) # rest) self =
     (if status conn = ''ESTABLISHED'' \<and> raddr conn \<noteq> None
      then
        (let remote = remote_of (the (raddr conn)) in
         case any_key_equals ''remote'' remote (network_connections self) of
           Inl e \<Rightarrow> self
         | Inr seen \<Rightarrow>
             let self1 =
                   (if \<not> seen
                    then self\<lparr>network_connections :=
                                network_connections self
                                  @ [[(''timestamp'', now), (''remote'', remote)]]\<rparr>
                    else self)
             in network_activity_loop rest
                  (self1\<lparr>m_threat_score :=
                           add_points 20 suspicious_network remote (m_threat_score self1)\<rparr>))
      else network_activity_loop rest self)"

definition monitor_network_activity :: "sample \<Rightarrow> ProcessMonitor \<Rightarrow> ProcessMonitor" where
  "monitor_network_activity smp self =
     (case connections smp of Inl e \<Rightarrow> self | Inr conns \<Rightarrow> network_activity_loop conns self)"

fun registry_activity_loop :: "(string \<times> string) list \<Rightarrow> ProcessMonitor \<Rightarrow> ProcessMonitor" where
  "registry_activity_loop [] self = self"
| "registry_activity_loop ((now, dll_path) # rest) self =
     (let path = lower dll_path in
      if contains path ''advapi32.dll'' \<and> \<not> any_get_equals ''dll'' path (registry_activities self)
      then registry_activity_loop rest
             (self\<lparr>registry_activities :=
                     registry_activities self
                       @ [[(''timestamp'', now), (''dll'', path), (''key'', hd suspicious_registry)]],
                   m_threat_score := m_threat_score self + 5\<rparr>)
      else registry_activity_loop rest self)"

definition monitor_registry_activity :: "sample \<Rightarrow> ProcessMonitor \<Rightarrow> ProcessMonitor" where
  "monitor_registry_activity smp self =
     (case memory_maps smp of Inl e \<Rightarrow> self | Inr dlls \<Rightarrow> registry_activity_loop dlls self)"

text \<open>One iteration of the polling loop, for a process that is still running.\<close>
definition tick :: "platform \<Rightarrow> sample \<Rightarrow> ProcessMonitor \<Rightarrow> ProcessMonitor" where
  "tick sys smp self =
     (let self1 = monitor_file_activity smp self;
          self2 = monitor_network_activity smp self1
      in if platform_system sys = ''Windows'' then monitor_registry_activity smp self2 else self2)"

text \<open>
  The polling loop of \<open>_monitor_process\<close>: it ends when the process has exited, or when
  the samples are exhausted, which is when the orchestrator clears the \<open>monitoring\<close> flag.
\<close>
fun monitor_process :: "platform \<Rightarrow> sample list \<Rightarrow> ProcessMonitor \<Rightarrow> ProcessMonitor" where
  "monitor_process sys [] self = self"
| "monitor_process sys (smp # rest) self =
     (if \<not> is_running smp then self else monitor_process sys rest (tick sys smp self))"

text \<open>
  \<open>start_monitoring\<close> followed by the run of the thread. Without a pid, or when the
  process is gone already, no thread is started.
\<close>
definition start_monitoring ::
  "platform \<Rightarrow> int option \<Rightarrow> bool \<Rightarrow> sample list \<Rightarrow> ProcessMonitor \<Rightarrow> ProcessMonitor" where
  "start_monitoring sys p alive samples self =
     (if p = None \<or> p = Some 0 then self
      else if \<not> alive then self\<lparr>m_pid := p\<rparr>
      else (monitor_process sys samples (self\<lparr>m_pid := p, monitoring := True\<rparr>)))"

text \<open>\<open>stop_monitoring\<close> returns the data under the key names the detector reads.\<close>
definition stop_monitoring :: "ProcessMonitor \<Rightarrow> ProcessMonitor \<times> activity_report" where
  "stop_monitoring self =
     (self\<lparr>monitoring := False\<rparr>,
      \<lparr>file_operations = file_accesses self,
       network_activity = network_connections self,
       registry_operations = registry_activities self,
       r_threat_score = m_threat_score self\<rparr>)"


section \<open>Driving an isolation environment\<close>

text \<open>
  Every operation returns the handler calls it made, the environment as the call left it
  (also when the call raises) and the value returned or the exception raised.
\<close>

definition limit_get :: "'a limit \<Rightarrow> string \<Rightarrow> 'a \<Rightarrow> exn + 'a" where
  "limit_get l level dflt =
     (case l of
        Absent \<Rightarrow> Inr dflt
      | PerLevel tbl \<Rightarrow> Inr (case map_of tbl level of Some v \<Rightarrow> v | None \<Rightarrow> dflt)
      | Scalar v \<Rightarrow> Inl (AttributeError ''object has no attribute get''))"

definition no_limits :: resource_limits where
  "no_limits = \<lparr>memory_mb = Absent, cpu_percent = Absent, network_access = Absent\<rparr>"

text \<open>\<open>ContainerIsolation.setup\<close>, which is \<open>_create_container\<close>.\<close>
definition setup_container ::
  "backend \<Rightarrow> isolation_env \<Rightarrow> backend_call list \<times> isolation_env \<times> (exn + string option)" where
  "setup_container b self =
     (let config = (case load_resource_limits b of Inl e \<Rightarrow> no_limits | Inr c \<Rightarrow> c);
          level = env_security_level self
      in case limit_get (memory_mb config) level 256 of
           Inl e \<Rightarrow> ([], self, Inl e)
         | Inr mem \<Rightarrow>
        (case limit_get (cpu_percent config) level 30 of
           Inl e \<Rightarrow> ([], self, Inl e)
         | Inr cpu \<Rightarrow>
        (case limit_get (network_access config) level False of
           Inl e \<Rightarrow> ([], self, Inl e)
         | Inr net \<Rightarrow>
             (case create_container b level mem cpu net of
                Inl e \<Rightarrow>
                  ([CreateContainer level mem cpu net], self,
                   Inl (RuntimeError ''Container creation failed''))
              | Inr cid \<Rightarrow>
                  ([CreateContainer level mem cpu net], self\<lparr>container_id := cid\<rparr>, Inr cid)))))"

text \<open>A container id is false when it is \<open>None\<close> or the empty string.\<close>
definition no_container :: "isolation_env \<Rightarrow> bool" where
  "no_container self = (container_id self = None \<or> container_id self = Some [])"

definition container_execute ::
  "backend \<Rightarrow> isolation_env \<Rightarrow> string
    \<Rightarrow> backend_call list \<times> isolation_env \<times> (exn + exec_return)" where
  "container_execute b self file_path =
     (if no_container self
      then
        (case setup_container b self of
           (calls, self1, Inl e) \<Rightarrow> (calls, self1, Inl e)
         | (calls, self1, Inr cid) \<Rightarrow>
             (calls @ [ExecuteInContainer (container_id self1) file_path], self1,
              execute_in_container b (container_id self1) file_path))
      else ([ExecuteInContainer (container_id self) file_path], self,
            execute_in_container b (container_id self) file_path))"

text \<open>
  Binding a returned value to the pair \<open>process, output\<close>. A dict unpacks to its keys and
  must have exactly two.
\<close>
definition unpack_pair :: "exec_return \<Rightarrow> exn + handle \<times> pyval" where
  "unpack_pair r =
     (case r of
        RPair h out \<Rightarrow> Inr (h, out)
      | RDict d \<Rightarrow>
          if length d = 2 then Inr (KeyHandle (fst (d ! 0)), PStr (fst (d ! 1)))
          else Inl (ValueError ''not enough or too many values to unpack''))"

definition process_execute ::
  "backend \<Rightarrow> isolation_env \<Rightarrow> string
    \<Rightarrow> backend_call list \<times> isolation_env \<times> (exn + exec_return)" where
  "process_execute b self file_path =
     (let calls = [ExecuteIsolated file_path (env_security_level self)] in
      case execute_isolated b file_path (env_security_level self) of
        Inl e \<Rightarrow> (calls, self, Inl e)
      | Inr r \<Rightarrow>
          (case unpack_pair r of
             Inl e \<Rightarrow> (calls, self, Inl e)
           | Inr (h, out) \<Rightarrow> (calls, self\<lparr>process := h\<rparr>, Inr (RPair h out))))"

definition execute ::
  "backend \<Rightarrow> isolation_env \<Rightarrow> string
    \<Rightarrow> backend_call list \<times> isolation_env \<times> (exn + exec_return)" where
  "execute b self file_path =
     (case variant self of
        Container \<Rightarrow> container_execute b self file_path
      | Process \<Rightarrow> process_execute b self file_path)"

text \<open>Python truth of a handle: \<open>None\<close> and the empty string are false.\<close>
fun truthy :: "handle \<Rightarrow> bool" where
  "truthy NoHandle = False"
| "truthy (ProcHandle p) = True"
| "truthy (KeyHandle k) = (k \<noteq> [])"

text \<open>\<open>cleanup\<close> of either variant; an exception of the handler is logged, not raised.\<close>
definition env_cleanup :: "backend \<Rightarrow> isolation_env \<Rightarrow> backend_call list \<times> isolation_env" where
  "env_cleanup b self =
     (case variant self of
        Container \<Rightarrow>
          (if no_container self then ([], self)
           else
             (case remove_container b (the (container_id self)) of
                Inl e \<Rightarrow> ([RemoveContainer (the (container_id self))], self)
              | Inr r \<Rightarrow>
                  ([RemoveContainer (the (container_id self))], self\<lparr>container_id := None\<rparr>)))
      | Process \<Rightarrow>
          (if \<not> truthy (process self) then ([], self)
           else
             (case terminate_process b (process self) of
                Inl e \<Rightarrow> ([TerminateProcess (process self)], self)
              | Inr u \<Rightarrow> ([TerminateProcess (process self)], self\<lparr>process := NoHandle\<rparr>))))"


section \<open>Sandbox orchestrator (\<open>core/sandbox.py\<close>)\<close>

record Sandbox =
  sb_security_level :: string
  sb_isolation_method :: string
  sandbox_id :: string
  sandbox_dir :: string
  threat_detector :: ThreatDetector
  process_monitor :: ProcessMonitor
  isolation_env :: isolation_env

text \<open>
  The constructor builds the threat detector, which selects an isolation environment of
  its own, and then selects the sandbox's environment. The first component is the probe
  log of both selections.
\<close>
definition Sandbox_init ::
  "os_env \<Rightarrow> backend \<Rightarrow> string \<Rightarrow> string \<Rightarrow> variant list \<times> (exn + Sandbox)" where
  "Sandbox_init env b isolation_method security_level =
     (let (probed1, td) = ThreatDetector_init b security_level (Some isolation_method) in
      case td of
        Inl e \<Rightarrow> (probed1, Inl e)
      | Inr detector \<Rightarrow>
          (let (probed2, r) = get_isolation_environment b isolation_method security_level in
           case r of
             Inl e \<Rightarrow> (probed1 @ probed2, Inl e)
           | Inr ienv \<Rightarrow>
               (probed1 @ probed2,
                Inr \<lparr>sb_security_level = security_level,
                     sb_isolation_method = isolation_method,
                     sandbox_id = uuid4 env,
                     sandbox_dir = join env (sandbox_root env) (uuid4 env),
                     threat_detector = detector,
                     process_monitor = ProcessMonitor_init,
                     isolation_env = ienv\<rparr>)))"

text \<open>\<open>_prepare_file\<close>: \<open>shutil.copy\<close> raises when the source cannot be read.\<close>
definition prepare_file :: "os_env \<Rightarrow> Sandbox \<Rightarrow> string \<Rightarrow> exn + string" where
  "prepare_file env self file_path =
     (let dest_dir = join env (sandbox_dir self) ''files'';
          file_name = basename env file_path;
          dest_file_path = join env dest_dir file_name
      in case open_read env file_path of
           Inl e \<Rightarrow> Inl e
         | Inr cont \<Rightarrow> Inr dest_file_path)"

text \<open>The dict that the two execute methods return.\<close>
record execution_result =
  er_status :: string
  er_exit_code :: pyval
  er_pid :: pyval
  er_process :: handle

definition failed_execution :: execution_result where
  "failed_execution =
     \<lparr>er_status = ''failed'', er_exit_code = PInt (- 1), er_pid = PNone, er_process = NoHandle\<rparr>"

text \<open>\<open>d.get(key, default)\<close> on a dict of values.\<close>
definition dict_get :: "(string \<times> pyval) list \<Rightarrow> string \<Rightarrow> pyval \<Rightarrow> pyval" where
  "dict_get d key dflt = (case map_of d key of Some v \<Rightarrow> v | None \<Rightarrow> dflt)"

text \<open>
  The body of the \<open>try\<close> in \<open>_execute_in_container\<close>. A pair has no \<open>get\<close>, so a result of
  the Process variant raises here.
\<close>
definition try_execute_in_container ::
  "backend \<Rightarrow> isolation_env \<Rightarrow> string
    \<Rightarrow> backend_call list \<times> isolation_env \<times> (exn + execution_result)" where
  "try_execute_in_container b ienv file_path =
     (case execute b ienv file_path of
        (calls, ienv1, Inl e) \<Rightarrow> (calls, ienv1, Inl e)
      | (calls, ienv1, Inr (RPair h out)) \<Rightarrow>
          (calls, ienv1, Inl (AttributeError ''tuple object has no attribute get''))
      | (calls, ienv1, Inr (RDict d)) \<Rightarrow>
          (calls, ienv1,
           Inr \<lparr>er_status = ''completed'', er_exit_code = dict_get d ''exit_code'' (PInt 0),
                er_pid = dict_get d ''pid'' PNone, er_process = NoHandle\<rparr>))"

text \<open>
  The body of the \<open>try\<close> in \<open>_execute_in_process\<close>: \<open>process.pid if process else None\<close>
  raises for a string that is not empty.
\<close>
definition try_execute_in_process ::
  "backend \<Rightarrow> isolation_env \<Rightarrow> string
    \<Rightarrow> backend_call list \<times> isolation_env \<times> (exn + execution_result)" where
  "try_execute_in_process b ienv file_path =
     (case execute b ienv file_path of
        (calls, ienv1, Inl e) \<Rightarrow> (calls, ienv1, Inl e)
      | (calls, ienv1, Inr r) \<Rightarrow>
          (case unpack_pair r of
             Inl e \<Rightarrow> (calls, ienv1, Inl e)
           | Inr (h, out) \<Rightarrow>
               (case h of
                  ProcHandle p \<Rightarrow>
                    (calls, ienv1,
                     Inr \<lparr>er_status = ''completed'', er_exit_code = PInt 0,
                          er_pid = PInt (pid p), er_process = h\<rparr>)
                | NoHandle \<Rightarrow>
                    (calls, ienv1,
                     Inr \<lparr>er_status = ''completed'', er_exit_code = PInt 0,
                          er_pid = PNone, er_process = h\<rparr>)
                | KeyHandle k \<Rightarrow>
                    if k = [] then
                      (calls, ienv1,
                       Inr \<lparr>er_status = ''completed'', er_exit_code = PInt 0,
                            er_pid = PNone, er_process = h\<rparr>)
                    else (calls, ienv1, Inl (AttributeError ''str object has no attribute pid'')))))"

text \<open>Both methods catch every exception of their body and return the failed dict.\<close>
definition catch_execution ::
  "backend_call list \<times> isolation_env \<times> (exn + execution_result)
    \<Rightarrow> backend_call list \<times> isolation_env \<times> execution_result" where
  "catch_execution r =
     (case r of
        (calls, ienv, Inl e) \<Rightarrow> (calls, ienv, failed_execution)
      | (calls, ienv, Inr res) \<Rightarrow> (calls, ienv, res))"

definition execute_in_container_method ::
  "backend \<Rightarrow> isolation_env \<Rightarrow> string \<Rightarrow> backend_call list \<times> isolation_env \<times> execution_result" where
  "execute_in_container_method b ienv file_path =
     catch_execution (try_execute_in_container b ienv file_path)"

definition execute_in_process_method ::
  "backend \<Rightarrow> isolation_env \<Rightarrow> string \<Rightarrow> backend_call list \<times> isolation_env \<times> execution_result" where
  "execute_in_process_method b ienv file_path =
     catch_execution (try_execute_in_process b ienv file_path)"

text \<open>\<open>cleanup\<close>: removing the workspace and the environment never raises.\<close>
definition cleanup :: "backend \<Rightarrow> Sandbox \<Rightarrow> backend_call list \<times> Sandbox" where
  "cleanup b self =
     (case env_cleanup b (isolation_env self) of
        (calls, ienv) \<Rightarrow> (calls, self\<lparr>isolation_env := ienv\<rparr>))"

text \<open>
  What the monitored run of the process path looks like from outside: whether the process
  is alive when monitoring starts, the samples the polling thread takes until it is
  stopped, and whether waiting for the process runs into the timeout.
\<close>
record process_run =
  alive :: bool
  samples :: "sample list"
  wait_times_out :: bool

text \<open>Python truth of a pid: \<open>None\<close> and \<open>0\<close> are false.\<close>
fun pid_of :: "pyval \<Rightarrow> int option" where
  "pid_of (PInt n) = (if n = 0 then None else Some n)"
| "pid_of v = None"

record report =
  rp_sandbox_id :: string
  rp_filename :: string
  rp_file :: string
  rp_file_hash :: "string option"
  rp_status :: string
  rp_exit_code :: pyval
  rp_threat_level :: rat
  rp_monitoring_results :: "activity_report option"
  rp_threats :: "threat list"
  rp_file_operations :: "py_dict list"
  rp_network_activity :: "py_dict list"
  rp_registry_operations :: "py_dict list"

text \<open>The combined score of a scan.\<close>
definition total_threat_score :: "rat \<Rightarrow> rat \<Rightarrow> rat" where
  "total_threat_score static_threat_score dynamic_score =
     py_round2 (min (static_threat_score + dynamic_score) 1)"

text \<open>The monitoring block of the process path, entered when a pid is known.\<close>
definition monitor_run ::
  "platform \<Rightarrow> process_run \<Rightarrow> execution_result \<Rightarrow> ProcessMonitor
    \<Rightarrow> backend_call list \<times> ProcessMonitor \<times> activity_report" where
  "monitor_run sys run execution_result pm =
     (let pm1 = start_monitoring sys (pid_of (er_pid execution_result)) (alive run) (samples run) pm;
          calls = (case er_process execution_result of
                     ProcHandle p \<Rightarrow> if wait_times_out run then [PopenTerminate p] else []
                   | h \<Rightarrow> []);
          (pm2, monitor_results) = stop_monitoring pm1
      in (calls, pm2, monitor_results))"

text \<open>
  \<open>execute_file\<close>. The result holds all handler calls of the scan, the sandbox as the scan
  left it, and the report returned or the exception raised to the caller.
\<close>
definition execute_file ::
  "os_env \<Rightarrow> backend \<Rightarrow> process_run \<Rightarrow> Sandbox \<Rightarrow> string \<Rightarrow> bool
    \<Rightarrow> backend_call list \<times> Sandbox \<times> (exn + report)" where
  "execute_file env b run self file_path monitor =
     (let analysis_result = analyze env file_path;
          static_threat_score = ar_threat_level analysis_result;
          static_threats = (case ar_threats analysis_result of None \<Rightarrow> [] | Some ts \<Rightarrow> ts);
          file_name = (case ar_filename analysis_result of
                         None \<Rightarrow> basename env file_path
                       | Some n \<Rightarrow> n)
      in case prepare_file env self file_path of
           Inl e \<Rightarrow> ([], self, Inl e)
         | Inr sandbox_file_path \<Rightarrow>
             (let self1 = (if static_threat_score > 2 / 10
                           then self\<lparr>sb_security_level := ''high''\<rparr> else self);
                  (calls, self2, execution_result, monitor_results) =
                    (if sb_isolation_method self1 = ''container''
                     then
                       (case execute_in_container_method b (isolation_env self1) sandbox_file_path of
                          (calls, ienv, res) \<Rightarrow> (calls, self1\<lparr>isolation_env := ienv\<rparr>, res, None))
                     else
                       (case execute_in_process_method b (isolation_env self1) sandbox_file_path of
                          (calls, ienv, res) \<Rightarrow>
                            if monitor \<and> pid_of (er_pid res) \<noteq> None
                            then
                              (case monitor_run (system env) run res (process_monitor self1) of
                                 (mcalls, pm, results) \<Rightarrow>
                                   (calls @ mcalls,
                                    self1\<lparr>isolation_env := ienv, process_monitor := pm\<rparr>,
                                    res, Some results))
                            else (calls, self1\<lparr>isolation_env := ienv\<rparr>, res, None)));
                  dynamic_analysis =
                    analyze_report (system env) (threat_detector self2) monitor_results;
                  dynamic_score = threat_score dynamic_analysis;
                  dynamic_threats = threats dynamic_analysis;
                  combined_threats = static_threats @ dynamic_threats;
                  rep =
                    \<lparr>rp_sandbox_id = sandbox_id self2,
                     rp_filename = file_name,
                     rp_file = file_name,
                     rp_file_hash = ar_file_hash analysis_result,
                     rp_status = er_status execution_result,
                     rp_exit_code = er_exit_code execution_result,
                     rp_threat_level = total_threat_score static_threat_score dynamic_score,
                     rp_monitoring_results = monitor_results,
                     rp_threats = combined_threats,
                     rp_file_operations =
                       (case monitor_results of None \<Rightarrow> [] | Some r \<Rightarrow> file_operations r),
                     rp_network_activity =
                       (case monitor_results of None \<Rightarrow> [] | Some r \<Rightarrow> network_activity r),
                     rp_registry_operations =
                       (case monitor_results of None \<Rightarrow> [] | Some r \<Rightarrow> registry_operations r)\<rparr>
              in case cleanup b self2 of
                   (ccalls, self3) \<Rightarrow> (calls @ ccalls, self3, Inr rep)))"


section \<open>Concrete environments\<close>

text \<open>A small file system, a scan environment over it and a sandbox for process isolation.\<close>
definition demo_files :: "string \<Rightarrow> fs_file option" where
  "demo_files p =
     (if p = ''/tmp/a.sh''
      then Some \<lparr>content = ''sudo rm -rf /tmp/x'', readable = True, executable = True\<rparr>
      else if p = ''/tmp/tool''
      then Some \<lparr>content = ''ELF'', readable = True, executable = True\<rparr>
      else if p = ''/tmp/run.exe''
      then Some \<lparr>content = ''CreateProcess'', readable = True, executable = False\<rparr>
      else if p = ''/tmp/loader.exe''
      then Some \<lparr>content = ''CreateProcess exec'', readable = True, executable = False\<rparr>
      else if p = ''/tmp/.exe''
      then Some \<lparr>content = ''CreateProcess'', readable = True, executable = False\<rparr>
      else None)"

definition demo_env :: os_env where
  "demo_env = posix_env demo_files"

definition demo_detector :: ThreatDetector where
  "demo_detector =
     \<lparr>signatures = load_signatures, td_security_level = ''low'',
      td_isolation_method = ''process'', td_isolation_env = ProcessIsolation ''low'',
      detection_sensitivity = 3 / 10\<rparr>"

text \<open>The sandbox that \<open>Sandbox("process", "low")\<close> constructs in \<open>demo_env\<close>.\<close>
definition demo_sandbox :: Sandbox where
  "demo_sandbox =
     \<lparr>sb_security_level = ''low'', sb_isolation_method = ''process'',
      sandbox_id = uuid4 demo_env,
      sandbox_dir = ''/home/user/.saferun/sandbox/00000000-0000-4000-8000-000000000000'',
      threat_detector = demo_detector,
      process_monitor = ProcessMonitor_init,
      isolation_env = ProcessIsolation ''low''\<rparr>"

text \<open>A process that holds one connection to port 4444 and has \<open>/etc/passwd\<close> open.\<close>
definition demo_sample :: sample where
  "demo_sample =
     \<lparr>is_running = True,
      open_files = Inr [(''2024-01-01T10:00:00'', ''/etc/passwd'')],
      connections =
        Inr [(''2024-01-01T10:00:00'', \<lparr>status = ''ESTABLISHED'', raddr = Some (''10.0.0.1'', 4444)\<rparr>)],
      memory_maps = Inr []\<rparr>"

definition demo_run :: process_run where
  "demo_run = \<lparr>alive = True, samples = [demo_sample], wait_times_out = False\<rparr>"

text \<open>A run in which the process has exited before the first sample is taken.\<close>
definition quiet_run :: process_run where
  "quiet_run = \<lparr>alive = False, samples = [], wait_times_out = False\<rparr>"

text \<open>A signature of severity \<open>none\<close>, as \<open>from_dict\<close> builds it, added to the loaded ones.\<close>
definition none_signature :: ThreatSignature where
  "none_signature =
     ThreatSignature_init ''SIG-900'' ''Scratch file'' ''Writes to the scratch area''
       [''/tmp/scratch''] (Inr ''none'') ''File Access'' [''all'']"

definition none_detector :: ThreatDetector where
  "none_detector = demo_detector\<lparr>signatures := load_signatures @ [none_signature]\<rparr>"

definition scratch_report :: activity_report where
  "scratch_report =
     \<lparr>file_operations = [[(''timestamp'', ''2024-01-01T10:00:00''), (''path'', ''/tmp/scratch/out'')]],
      network_activity = [], registry_operations = [], r_threat_score = 0\<rparr>"


text \<open>
  A Windows host: the downloaded installer \<open>C:\Users\user\Downloads\setup.exe\<close>, the
  scanner's workspace under the home directory, no container runtime, and the Windows
  Sandbox feature enabled. Started directly, the installer runs as process 4242; Windows
  Sandbox runs as process 5151.
\<close>
definition windows_path :: "string list \<Rightarrow> string" where
  "windows_path parts = join_with backslash parts"

definition setup_exe :: string where
  "setup_exe = windows_path [''C:'', ''Users'', ''user'', ''Downloads'', ''setup.exe'']"

definition windows_files :: "string \<Rightarrow> fs_file option" where
  "windows_files p =
     (if p = setup_exe then Some \<lparr>content = ''MZ'', readable = True, executable = False\<rparr>
      else None)"

definition windows_env :: os_env where
  "windows_env =
     \<lparr>system = Windows, fs = windows_files, basename = nt_basename, splitext = nt_splitext,
      join = nt_join, sha256_hex = (\<lambda>b. ''sha256''), md5_hex = (\<lambda>b. ''md5''),
      uuid4 = ''00000000-0000-4000-8000-000000000000'',
      sandbox_root = windows_path [''C:'', ''Users'', ''user'', ''.saferun'', ''sandbox'']\<rparr>"

text \<open>Where \<open>_prepare_file\<close> copies the installer.\<close>
definition setup_copy :: string where
  "setup_copy =
     windows_path [''C:'', ''Users'', ''user'', ''.saferun'', ''sandbox'',
                   ''00000000-0000-4000-8000-000000000000'', ''files'', ''setup.exe'']"

definition sandbox_host :: host where
  "sandbox_host =
     \<lparr>runtime_answers = False, runtime_found = False,
      docker_run = Inl (FileNotFoundError ''docker''),
      docker_exec = NotStarted (FileNotFoundError ''docker''),
      docker_rm = False, firejail = False, bubblewrap = False,
      windows_sandbox = Inr True,
      popen = (\<lambda>path. Inr (\<lparr>pid = 4242\<rparr>, [], [], 0)),
      sandbox_popen = Inr \<lparr>pid = 5151\<rparr>,
      config_limits = Inl (OSError ''no configuration'')\<rparr>"

text \<open>The sandbox that \<open>Sandbox("process", "low")\<close> constructs on this host.\<close>
definition windows_sandbox_low :: Sandbox where
  "windows_sandbox_low =
     demo_sandbox\<lparr>sandbox_dir :=
       windows_path [''C:'', ''Users'', ''user'', ''.saferun'', ''sandbox'',
                     ''00000000-0000-4000-8000-000000000000'']\<rparr>"




text \<open>The deduplication keys of a list of records: the values under \<open>key\<close>.\<close>
definition keys_of :: "string \<Rightarrow> py_dict list \<Rightarrow> string option list" where
  "keys_of key records = map (\<lambda>d. map_of d key) records"

text \<open>A process with one established connection to port 4444, and one with a password file open.\<close>
definition beacon_sample :: sample where
  "beacon_sample =
     \<lparr>is_running = True, open_files = Inr [],
      connections =
        Inr [(''2024-01-01T10:00:00'', \<lparr>status = ''ESTABLISHED'', raddr = Some (''10.0.0.1'', 4444)\<rparr>)],
      memory_maps = Inr []\<rparr>"

definition passwd_sample :: sample where
  "passwd_sample =
     \<lparr>is_running = True, open_files = Inr [(''2024-01-01T10:00:00'', ''/etc/passwd'')],
      connections = Inr [], memory_maps = Inr []\<rparr>"


text \<open>
  The invariant of a monitoring session: in each class of records no key occurs twice,
  and every file and network record has its key.
\<close>
definition no_duplicate_keys :: "ProcessMonitor \<Rightarrow> bool" where
  "no_duplicate_keys self =
     (distinct (keys_of ''path'' (file_accesses self))
      \<and> distinct (keys_of ''remote'' (network_connections self))
      \<and> distinct (keys_of ''dll'' (registry_activities self)))"

definition all_keyed :: "ProcessMonitor \<Rightarrow> bool" where
  "all_keyed self =
     (None \<notin> set (keys_of ''path'' (file_accesses self))
      \<and> None \<notin> set (keys_of ''remote'' (network_connections self)))"


section \<open>Selection of the isolation environment\<close>

lemma is_available_ContainerIsolation:
  "is_available b (ContainerIsolation l) = (check_container_support b = Inr True)"
  by (cases "check_container_support b") (auto simp: is_available_def ContainerIsolation_def)

lemma is_available_ProcessIsolation:
  "is_available b (ProcessIsolation l) = (check_isolation_support b = Inr True)"
  by (cases "check_isolation_support b") (auto simp: is_available_def ProcessIsolation_def)

text \<open>
  C5. A request for \<open>container\<close> probes the Container variant first and returns it when it
  is available; otherwise the Process variant is probed as fallback. A request for
  \<open>process\<close> probes the Process variant only. When no probed variant is available (also
  when the method names neither variant, so that nothing is probed) the call raises the
  no-isolation error; an environment that is returned was probed and found available.
\<close>
theorem get_isolation_environment_policy:
  "(lower method = ''container'' \<and> is_available b (ContainerIsolation level) \<longrightarrow>
      get_isolation_environment b method level = ([Container], Inr (ContainerIsolation level)))
   \<and> (lower method = ''container'' \<and> \<not> is_available b (ContainerIsolation level)
        \<and> is_available b (ProcessIsolation level) \<longrightarrow>
      get_isolation_environment b method level
        = ([Container, Process], Inr (ProcessIsolation level)))
   \<and> (lower method = ''process'' \<and> is_available b (ProcessIsolation level) \<longrightarrow>
      get_isolation_environment b method level = ([Process], Inr (ProcessIsolation level)))
   \<and> (lower method = ''process'' \<longrightarrow>
      fst (get_isolation_environment b method level) = [Process])
   \<and> ((\<forall>v \<in> set (fst (get_isolation_environment b method level)).
          \<not> is_available b (make_variant v level)) \<longrightarrow>
      snd (get_isolation_environment b method level) = Inl no_isolation)
   \<and> (\<forall>env. snd (get_isolation_environment b method level) = Inr env \<longrightarrow>
          is_available b env
          \<and> variant env \<in> set (fst (get_isolation_environment b method level))
          \<and> env = make_variant (variant env) level)"
  by (auto simp: get_isolation_environment_def Let_def make_variant_def
        ContainerIsolation_def ProcessIsolation_def)

theorem get_isolation_environment_policy_witness:
  "get_isolation_environment process_only_backend ''Container'' ''low''
     = ([Container, Process], Inr (ProcessIsolation ''low''))
   \<and> get_isolation_environment process_only_backend ''process'' ''low''
     = ([Process], Inr (ProcessIsolation ''low''))
   \<and> snd (get_isolation_environment no_backend ''container'' ''high'') = Inl no_isolation
   \<and> snd (get_isolation_environment no_backend ''virtual'' ''high'') = Inl no_isolation"
proof -
  have l1: "lower ''Container'' = ''container''" and l2: "lower ''process'' = ''process''"
    by code_simp+
  have a: "\<not> is_available process_only_backend (ContainerIsolation ''low'')"
    and b: "is_available process_only_backend (ProcessIsolation ''low'')"
    by (simp_all add: is_available_ContainerIsolation is_available_ProcessIsolation
          process_only_backend_def linux_backend_def firejail_host_def)
  have c: "\<forall>v \<in> set (fst (get_isolation_environment no_backend m ''high'')).
             \<not> is_available no_backend (make_variant v ''high'')" for m
    by (auto simp: make_variant_def is_available_ContainerIsolation
          is_available_ProcessIsolation no_backend_def process_only_backend_def
          linux_backend_def firejail_host_def
          split: variant.splits)
  have p1: "get_isolation_environment process_only_backend ''Container'' ''low''
     = ([Container, Process], Inr (ProcessIsolation ''low''))"
    using get_isolation_environment_policy [of "''Container''" process_only_backend "''low''"]
      l1 a b by blast
  have p2: "get_isolation_environment process_only_backend ''process'' ''low''
     = ([Process], Inr (ProcessIsolation ''low''))"
    using get_isolation_environment_policy [of "''process''" process_only_backend "''low''"]
      l2 b by blast
  have p3: "snd (get_isolation_environment no_backend ''container'' ''high'') = Inl no_isolation"
    using get_isolation_environment_policy [of "''container''" no_backend "''high''"]
      c [of "''container''"] by blast
  have p4: "snd (get_isolation_environment no_backend ''virtual'' ''high'') = Inl no_isolation"
    using get_isolation_environment_policy [of "''virtual''" no_backend "''high''"]
      c [of "''virtual''"] by blast
  from p1 p2 p3 p4 show ?thesis by blast
qed


section \<open>Severity weights\<close>


lemma match_signatures_score:
  "fst (match_signatures sys d sigs (score, ts))
     = score + sum_list (map (\<lambda>sg. signature_weight (severity sg))
                 (filter (\<lambda>sg. applies_to sys sg \<and> first_indicator d (indicators sg) \<noteq> None)
                    sigs))"
  by (induction sigs arbitrary: score ts) (auto simp: add.assoc split: option.splits)





section \<open>Static analysis of an executable that creates processes\<close>

text \<open>The float loop and the loop over decimals find the same keywords.\<close>
lemma scan_keywords_float_findings:
  "snd (scan_keywords_float cont kws (s, ts)) = snd (scan_keywords cont kws (s', ts))"
  by (induction kws arbitrary: s s' ts) auto

text \<open>In the float loop every keyword found adds the float of its weight, in table order.\<close>
lemma scan_keywords_float_score:
  "fst (scan_keywords_float cont kws (s, ts))
     = foldl fadd s (map (\<lambda>(kw, l). double_of (keyword_weight l))
                       (filter (\<lambda>(kw, l). contains cont kw) kws))"
  by (induction kws arbitrary: s ts) auto

text \<open>
  C9, as the code has it. For a file whose extension, as \<open>os.path.splitext\<close> gives it and
  lower-cased, is \<open>.exe\<close>, and whose bytes as read contain \<open>CreateProcess\<close> and no other
  keyword of the table, \<open>analyze_file\<close> returns one extension finding and one keyword
  finding, in this order, and the score \<open>0.2 + 0.4\<close>. In double precision that sum is
  \<open>0.6000000000000001\<close>, the float \<open>5404319552844596 / 2^53\<close>, which is returned unrounded;
  rounded to two decimals it is \<open>0.6\<close>.
\<close>
theorem analyze_file_exe_CreateProcess:
  assumes "lower (snd (splitext env path)) = ''.exe''"
    and "open_read env path = Inr cont"
    and "contains cont ''CreateProcess''"
    and "\<forall>kw \<in> set (map fst keyword_table). kw \<noteq> ''CreateProcess'' \<longrightarrow> \<not> contains cont kw"
  shows "analyze_file env path
           = \<lparr>threat_score = 5404319552844596 / 9007199254740992,
              threats = [TypedThreat ''extension'' ''.exe'' (double_of (8 / 10)),
                         KeywordThreat ''CreateProcess'' ''HIGH'']\<rparr>
         \<and> py_round2 (threat_score (analyze_file env path)) = 6 / 10"
proof -
  have a: "analyze_file env path
           = \<lparr>threat_score =
                min (fadd (fadd 0 (double_of (2 / 10))) (double_of (keyword_weight HIGH))) 1,
              threats = [TypedThreat ''extension'' ''.exe'' (double_of (8 / 10)),
                         KeywordThreat ''CreateProcess'' ''HIGH'']\<rparr>"
    using assms by (simp add: analyze_file_def keyword_table_def Let_def)
  have b: "min (fadd (fadd 0 (double_of (2 / 10))) (double_of (keyword_weight HIGH))) 1
             = 5404319552844596 / 9007199254740992"
    by code_simp
  have c: "py_round2 (5404319552844596 / 9007199254740992) = 6 / 10"
    by code_simp
  from a b have d: "analyze_file env path
           = \<lparr>threat_score = 5404319552844596 / 9007199254740992,
              threats = [TypedThreat ''extension'' ''.exe'' (double_of (8 / 10)),
                         KeywordThreat ''CreateProcess'' ''HIGH'']\<rparr>"
    by (simp only:)
  have "threat_score (analyze_file env path) = 5404319552844596 / 9007199254740992"
    by (subst d) (rule detector_result.select_convs)
  with c d show ?thesis by (simp only:)
qed

theorem analyze_file_exe_CreateProcess_witness:
  "analyze_file demo_env ''/tmp/run.exe''
     = \<lparr>threat_score = 5404319552844596 / 9007199254740992,
        threats = [TypedThreat ''extension'' ''.exe'' (double_of (8 / 10)),
                   KeywordThreat ''CreateProcess'' ''HIGH'']\<rparr>
   \<and> py_round2 (threat_score (analyze_file demo_env ''/tmp/run.exe'')) = 6 / 10"
proof -
  have 1: "lower (snd (splitext demo_env ''/tmp/run.exe'')) = ''.exe''"
    by code_simp
  have 2: "open_read demo_env ''/tmp/run.exe'' = Inr ''CreateProcess''"
    by code_simp
  have 3: "contains ''CreateProcess'' ''CreateProcess''"
    by code_simp
  have 4: "\<forall>kw \<in> set (map fst keyword_table).
             kw \<noteq> ''CreateProcess'' \<longrightarrow> \<not> contains ''CreateProcess'' kw"
    by code_simp
  show ?thesis
    by (rule analyze_file_exe_CreateProcess [OF 1 2 3 4])
qed

text \<open>
  The claim as stated fails for a file that holds a second keyword: every keyword found
  adds its weight and a finding, here up to the cap \<open>1.0\<close> with two keyword findings. It
  also fails for the file named \<open>.exe\<close>, whose name \<open>splitext\<close> takes as a root without
  extension: the score is \<open>0.4\<close> and there is no extension finding.
\<close>
theorem analyze_file_exe_two_keywords:
  "analyze_file demo_env ''/tmp/loader.exe''
     = \<lparr>threat_score = 1,
        threats = [TypedThreat ''extension'' ''.exe'' (double_of (8 / 10)),
                   KeywordThreat ''CreateProcess'' ''HIGH'',
                   KeywordThreat ''exec'' ''HIGH'']\<rparr>
   \<and> analyze_file demo_env ''/tmp/.exe''
     = \<lparr>threat_score = double_of (4 / 10), threats = [KeywordThreat ''CreateProcess'' ''HIGH'']\<rparr>"
  by code_simp


section \<open>The combined threat score\<close>

lemma round_half_even_mono:
  assumes "x \<le> y"
  shows "round_half_even x \<le> round_half_even y"
proof -
  have f: "\<lfloor>x\<rfloor> \<le> \<lfloor>y\<rfloor>" using assms by (rule floor_mono)
  have lo: "\<lfloor>y\<rfloor> \<le> round_half_even y" by (simp add: round_half_even_def Let_def)
  have hi: "round_half_even x \<le> \<lfloor>x\<rfloor> + 1" by (simp add: round_half_even_def Let_def)
  show ?thesis
  proof (cases "\<lfloor>x\<rfloor> < \<lfloor>y\<rfloor>")
    case True
    with lo hi show ?thesis by linarith
  next
    case False
    with f have eq: "\<lfloor>x\<rfloor> = \<lfloor>y\<rfloor>" by simp
    then have "x - of_int \<lfloor>x\<rfloor> \<le> y - of_int \<lfloor>y\<rfloor>" using assms by simp
    then show ?thesis using eq by (auto simp: round_half_even_def Let_def)
  qed
qed

lemma round_half_even_of_int: "round_half_even (of_int n) = n"
  by (simp add: round_half_even_def Let_def)

lemma py_round2_mono: "x \<le> y \<Longrightarrow> py_round2 x \<le> py_round2 y"
  unfolding py_round2_def
  by (intro divide_right_mono iffD2 [OF of_int_le_iff] round_half_even_mono) simp_all

lemma py_round2_0: "py_round2 0 = 0"
  by (simp add: py_round2_def round_half_even_def)

lemma py_round2_1: "py_round2 1 = 1"
  using round_half_even_of_int [of 100] by (simp add: py_round2_def)

lemma py_round2_unit: "0 \<le> x \<Longrightarrow> x \<le> 1 \<Longrightarrow> 0 \<le> py_round2 x \<and> py_round2 x \<le> 1"
  using py_round2_mono [of 0 x] py_round2_mono [of x 1] by (simp add: py_round2_0 py_round2_1)

lemma total_threat_score_commute: "total_threat_score s d = total_threat_score d s"
  by (simp add: total_threat_score_def add.commute)

lemma total_threat_score_mono:
  "s \<le> s' \<Longrightarrow> d \<le> d' \<Longrightarrow> total_threat_score s d \<le> total_threat_score s' d'"
  unfolding total_threat_score_def by (rule py_round2_mono) simp

lemma total_threat_score_saturates: "1 \<le> s + d \<Longrightarrow> total_threat_score s d = 1"
  by (simp add: total_threat_score_def py_round2_1 min_def)

lemma total_threat_score_unit:
  "0 \<le> s \<Longrightarrow> 0 \<le> d \<Longrightarrow> 0 \<le> total_threat_score s d \<and> total_threat_score s d \<le> 1"
  unfolding total_threat_score_def by (rule py_round2_unit) simp_all

lemma signature_weight_nonneg: "0 \<le> signature_weight l"
  by (cases l) (simp_all add: signature_weight_def)

lemma match_signatures_nonneg: "0 \<le> fst (match_signatures sys d sigs (0, []))"
  unfolding match_signatures_score
  by (simp, rule sum_list_nonneg) (auto simp: signature_weight_nonneg)

lemma match_signatures_shift:
  "fst (match_signatures sys d sigs (score, ts))
     = score + fst (match_signatures sys d sigs (0, []))"
  by (simp add: match_signatures_score)

lemma scan_entries_score:
  "fst (scan_entries sys sigs es acc)
     = fst acc
       + sum_list (map (\<lambda>e. fst (match_signatures sys (lower (json_dumps e)) sigs (0, []))) es)"
proof (induction es arbitrary: acc)
  case Nil
  show ?case by simp
next
  case (Cons e es)
  obtain score ts where acc: "acc = (score, ts)" by (cases acc)
  show ?case
    using match_signatures_shift [of sys "lower (json_dumps e)" sigs score ts]
    by (simp add: Cons.IH acc add.assoc)
qed

lemma analyze_report_score:
  "threat_score (analyze_report sys td report)
     = min (sum_list
              (map (\<lambda>e. fst (match_signatures sys (lower (json_dumps e)) (signatures td) (0, [])))
                 (all_entries report))) 1"
proof -
  obtain score ts
    where sc: "scan_entries sys (signatures td) (all_entries report) (0, []) = (score, ts)"
    by (cases "scan_entries sys (signatures td) (all_entries report) (0, [])")
  from scan_entries_score [of sys "signatures td" "all_entries report" "(0, [])"] sc
  show ?thesis by (simp add: analyze_report_def)
qed

lemma analyze_report_unit:
  "0 \<le> threat_score (analyze_report sys td report)
   \<and> threat_score (analyze_report sys td report) \<le> 1"
proof -
  have "0 \<le> sum_list
          (map (\<lambda>e. fst (match_signatures sys (lower (json_dumps e)) (signatures td) (0, [])))
             (all_entries report))"
    by (rule sum_list_nonneg) (auto simp: match_signatures_nonneg)
  then show ?thesis unfolding analyze_report_score by simp
qed

lemma analyze_report_more_entries:
  assumes "all_entries r' = xs @ e # ys" and "all_entries r = xs @ ys"
  shows "threat_score (analyze_report sys td r) \<le> threat_score (analyze_report sys td r')"
  unfolding analyze_report_score assms
  using match_signatures_nonneg [of sys "lower (json_dumps e)" "signatures td"]
  by (simp add: min_le_iff_disj)

lemma pattern_findings_ge: "score \<le> fst (pattern_findings ps (score, ts))"
proof (induction ps arbitrary: score ts)
  case Nil
  show ?case by simp
next
  case (Cons p ps)
  have "score \<le> score + 1 / 10" by simp
  also have "\<dots> \<le> fst (pattern_findings ps
      (score + 1 / 10, ts @ [AnalyzerThreat p (1 / 10) (''Suspicious pattern found: '' @ p)]))"
    by (rule Cons.IH)
  finally show ?case by simp
qed

lemma score_file_nonneg: "0 \<le> fst (score_file env path ext is_exec)"
proof -
  have a: "0 \<le> fst (pattern_findings ps (s + 1 / 10, ts))" if "0 \<le> s" for ps s ts
    using pattern_findings_ge [of "s + 1 / 10" ps ts] that by linarith
  show ?thesis
    using a [of 0] a [of "3 / 10"] by (simp add: score_file_def Let_def del: set_simps list.set)
qed

lemma analyze_unit:
  "0 \<le> ar_threat_level (analyze env path) \<and> ar_threat_level (analyze env path) \<le> 1"
proof (cases "exists env path")
  case False
  then show ?thesis by (simp add: analyze_def not_found_result_def)
next
  case ex: True
  show ?thesis
  proof (cases "open_read env path")
    case (Inl e)
    with ex show ?thesis
      by (simp add: analyze_def calculate_hash_def failed_result_def Let_def)
  next
    case (Inr cont)
    have r: "0 \<le> py_round2 (min x 1) \<and> py_round2 (min x 1) \<le> 1" if "0 \<le> x" for x
      using that by (intro py_round2_unit) simp_all
    show ?thesis
      using ex Inr r [OF score_file_nonneg]
      by (simp add: analyze_def calculate_hash_def Let_def)
  qed
qed

lemma execute_file_score:
  assumes "execute_file env b run self path monitor = (calls, sb', Inr rep)"
  shows "rp_threat_level rep
           = total_threat_score (ar_threat_level (analyze env path))
               (threat_score (analyze_report (system env) (threat_detector self)
                  (rp_monitoring_results rep)))"
  using assms
  by (auto simp: execute_file_def Let_def split: sum.splits prod.splits if_splits)

text \<open>
  C1. The combined score is \<open>min(static + dynamic, 1.0)\<close> rounded to two decimals. It does
  not depend on the order of its summands, does not decrease when either summand grows,
  and is \<open>1.0\<close> once the sum reaches \<open>1.0\<close>. The report of every scan carries this score of
  the static and the dynamic analysis, and it lies between \<open>0.0\<close> and \<open>1.0\<close>, as both
  analyses return scores in that range. A further activity record never lowers the
  dynamic score.
\<close>
theorem combined_threat_score:
  "total_threat_score s d = py_round2 (min (s + d) 1)
   \<and> total_threat_score s d = total_threat_score d s
   \<and> (s \<le> s' \<and> d \<le> d' \<longrightarrow> total_threat_score s d \<le> total_threat_score s' d')
   \<and> (1 \<le> s + d \<longrightarrow> total_threat_score s d = 1)
   \<and> (0 \<le> s \<and> 0 \<le> d \<longrightarrow> 0 \<le> total_threat_score s d \<and> total_threat_score s d \<le> 1)
   \<and> 0 \<le> ar_threat_level (analyze env path) \<and> ar_threat_level (analyze env path) \<le> 1
   \<and> 0 \<le> threat_score (analyze_report sys td r) \<and> threat_score (analyze_report sys td r) \<le> 1
   \<and> (execute_file env b run self path monitor = (calls, sb', Inr rep) \<longrightarrow>
        rp_threat_level rep
          = total_threat_score (ar_threat_level (analyze env path))
              (threat_score (analyze_report (system env) (threat_detector self)
                 (rp_monitoring_results rep)))
        \<and> 0 \<le> rp_threat_level rep \<and> rp_threat_level rep \<le> 1)
   \<and> (all_entries r' = xs @ e # ys \<and> all_entries r = xs @ ys \<longrightarrow>
        threat_score (analyze_report sys td r) \<le> threat_score (analyze_report sys td r'))"
proof -
  have scan: "rp_threat_level rep
          = total_threat_score (ar_threat_level (analyze env path))
              (threat_score (analyze_report (system env) (threat_detector self)
                 (rp_monitoring_results rep)))
        \<and> 0 \<le> rp_threat_level rep \<and> rp_threat_level rep \<le> 1"
    if ex: "execute_file env b run self path monitor = (calls, sb', Inr rep)"
  proof -
    note eq = execute_file_score [OF ex]
    have "0 \<le> ar_threat_level (analyze env path)"
      and "0 \<le> threat_score (analyze_report (system env) (threat_detector self)
                 (rp_monitoring_results rep))"
      using analyze_unit analyze_report_unit by blast+
    from total_threat_score_unit [OF this] eq show ?thesis by simp
  qed
  have c1: "total_threat_score s d = py_round2 (min (s + d) 1)"
    by (simp add: total_threat_score_def)
  have c2: "total_threat_score s d = total_threat_score d s"
    by (rule total_threat_score_commute)
  have c3: "s \<le> s' \<and> d \<le> d' \<longrightarrow> total_threat_score s d \<le> total_threat_score s' d'"
    using total_threat_score_mono [of s s' d d'] by blast
  have c4: "1 \<le> s + d \<longrightarrow> total_threat_score s d = 1"
    using total_threat_score_saturates [of s d] by blast
  have c5: "0 \<le> s \<and> 0 \<le> d \<longrightarrow> 0 \<le> total_threat_score s d \<and> total_threat_score s d \<le> 1"
    using total_threat_score_unit [of s d] by blast
  have c9: "all_entries r' = xs @ e # ys \<and> all_entries r = xs @ ys \<longrightarrow>
        threat_score (analyze_report sys td r) \<le> threat_score (analyze_report sys td r')"
    using analyze_report_more_entries [of r' xs e ys r sys td] by blast
  from c1 c2 c3 c4 c5 analyze_unit [of env path] analyze_report_unit [of sys td r] scan c9
  show ?thesis by blast
qed


theorem combined_threat_score_witness:
  "total_threat_score (3 / 10) (4 / 10) \<le> total_threat_score (5 / 10) (4 / 10)
   \<and> total_threat_score (7 / 10) (4 / 10) = 1
   \<and> 0 \<le> total_threat_score (3 / 10) (4 / 10) \<and> total_threat_score (3 / 10) (4 / 10) \<le> 1
   \<and> \<not> isl (snd (snd (execute_file demo_env process_only_backend quiet_run demo_sandbox
                          ''/tmp/tool'' True)))
   \<and> 0 \<le> rp_threat_level (projr (snd (snd (execute_file demo_env process_only_backend quiet_run
                                             demo_sandbox ''/tmp/tool'' True))))
   \<and> rp_threat_level (projr (snd (snd (execute_file demo_env process_only_backend quiet_run
                                         demo_sandbox ''/tmp/tool'' True)))) \<le> 1
   \<and> threat_score (analyze_report Linux none_detector None)
        \<le> threat_score (analyze_report Linux none_detector (Some scratch_report))"
proof -
  define X where
    "X = execute_file demo_env process_only_backend quiet_run demo_sandbox ''/tmp/tool'' True"
  have ok: "\<not> isl (snd (snd X))"
    unfolding X_def by code_simp
  then have X: "execute_file demo_env process_only_backend quiet_run demo_sandbox ''/tmp/tool'' True
                  = (fst X, fst (snd X), Inr (projr (snd (snd X))))"
    unfolding X_def by (simp add: prod_eq_iff)
  have e1: "all_entries (Some scratch_report)
              = [] @ [(''timestamp'', ''2024-01-01T10:00:00''), (''path'', ''/tmp/scratch/out'')] # []"
    by (simp add: all_entries_def scratch_report_def)
  have e2: "all_entries None = [] @ []"
    by (simp add: all_entries_def)
  note T = combined_threat_score [where s = "3 / 10" and d = "4 / 10" and s' = "5 / 10"
      and d' = "4 / 10" and env = demo_env and path = "''/tmp/tool''"
      and b = process_only_backend and run = quiet_run and self = demo_sandbox
      and monitor = True and calls = "fst X" and sb' = "fst (snd X)"
      and rep = "projr (snd (snd X))" and r' = "Some scratch_report" and r = None
      and xs = "[]" and ys = "[]" and sys = Linux and td = none_detector
      and e = "[(''timestamp'', ''2024-01-01T10:00:00''), (''path'', ''/tmp/scratch/out'')]"]
  note S = combined_threat_score [where s = "7 / 10" and d = "4 / 10"]
  have h1: "(3 / 10 :: rat) \<le> 5 / 10 \<and> (4 / 10 :: rat) \<le> 4 / 10"
    and h2: "(1 :: rat) \<le> 7 / 10 + 4 / 10"
    and h3: "(0 :: rat) \<le> 3 / 10 \<and> (0 :: rat) \<le> 4 / 10"
    by simp_all
  have a: "total_threat_score (3 / 10) (4 / 10) \<le> total_threat_score (5 / 10) (4 / 10)"
    using T h1 by blast
  have b: "total_threat_score (7 / 10) (4 / 10) = 1"
    using S h2 by blast
  have c: "0 \<le> total_threat_score (3 / 10) (4 / 10) \<and> total_threat_score (3 / 10) (4 / 10) \<le> 1"
    using T h3 by blast
  have d: "0 \<le> rp_threat_level (projr (snd (snd X))) \<and> rp_threat_level (projr (snd (snd X))) \<le> 1"
    using T X by blast
  have e: "threat_score (analyze_report Linux none_detector None)
        \<le> threat_score (analyze_report Linux none_detector (Some scratch_report))"
    using T e1 e2 by blast
  from a b c d e ok show ?thesis
    unfolding X_def by blast
qed


section \<open>A scan of a missing file\<close>

lemma execute_file_not_prepared:
  assumes "prepare_file env self path = Inl e"
  shows "execute_file env b run self path monitor = ([], self, Inl e)"
  using assms by (simp add: execute_file_def Let_def)

lemma prepare_file_missing:
  "\<not> exists env path \<Longrightarrow> prepare_file env self path = Inl (FileNotFoundError path)"
  by (simp add: prepare_file_def exists_def open_read_def Let_def)

text \<open>
  C8. For a path that names no file, the file analyzer returns the threat level \<open>0.0\<close>
  with the error marker \<open>File not found\<close>, and the scan of that path raises in the
  preparation step: no handler is called (neither setup nor execute), and the sandbox is
  left as it was.
\<close>
theorem missing_file_scan:
  assumes "\<not> exists env path"
  shows "ar_threat_level (analyze env path) = 0
         \<and> ar_error (analyze env path) = Some ''File not found''
         \<and> execute_file env b run self path monitor = ([], self, Inl (FileNotFoundError path))"
  using assms execute_file_not_prepared [OF prepare_file_missing [OF assms]]
  by (simp add: analyze_def not_found_result_def)

theorem missing_file_scan_witness:
  "ar_threat_level (analyze demo_env ''/tmp/absent'') = 0
   \<and> ar_error (analyze demo_env ''/tmp/absent'') = Some ''File not found''
   \<and> execute_file demo_env process_only_backend demo_run demo_sandbox ''/tmp/absent'' True
        = ([], demo_sandbox, Inl (FileNotFoundError ''/tmp/absent''))"
proof -
  have "\<not> exists demo_env ''/tmp/absent''"
    by code_simp
  then show ?thesis
    by (rule missing_file_scan)
qed


section \<open>A scan whose execution fails\<close>










section \<open>Escalation of the security level\<close>

text \<open>
  The environment's \<open>execute\<close> passes the level that the environment holds to the handler
  and does not change it; nothing else in a scan writes that level.
\<close>
lemma execute_level:
  assumes "execute b ienv dest = (calls, ienv', r)"
  shows "env_security_level ienv' = env_security_level ienv
         \<and> (\<forall>c \<in> set calls.
               (\<forall>p l. c = ExecuteIsolated p l \<longrightarrow> l = env_security_level ienv)
               \<and> (\<forall>l m u n. c = CreateContainer l m u n \<longrightarrow> l = env_security_level ienv))"
  using assms
  by (auto simp: execute_def container_execute_def process_execute_def setup_container_def
        Let_def split: variant.splits sum.splits prod.splits if_splits)

text \<open>
  C3 fails on the code. On Windows, \<open>Sandbox("process", "low")\<close> scans the installer
  \<open>setup.exe\<close>, whose static score is \<open>0.3\<close>. The scan sets the sandbox's own
  \<open>security_level\<close> to \<open>high\<close>, but the isolation environment was built by the constructor
  with \<open>low\<close> and keeps it: the handler is called with level \<open>low\<close> and starts the
  installer directly on the host (process 4242), although Windows Sandbox is enabled
  and is what the handler uses at level \<open>high\<close> (process 5151).
\<close>
theorem escalation_does_not_reach_isolation:
  "snd (Sandbox_init windows_env (windows_backend sandbox_host) ''process'' ''low'')
     = Inr windows_sandbox_low
   \<and> ar_threat_level (analyze windows_env setup_exe) = 3 / 10
   \<and> fst (execute_file windows_env (windows_backend sandbox_host) quiet_run windows_sandbox_low
            setup_exe True)
       = [ExecuteIsolated setup_copy ''low'', TerminateProcess (ProcHandle \<lparr>pid = 4242\<rparr>)]
   \<and> sb_security_level
        (fst (snd (execute_file windows_env (windows_backend sandbox_host) quiet_run
                     windows_sandbox_low setup_exe True))) = ''high''
   \<and> env_security_level
        (isolation_env
           (fst (snd (execute_file windows_env (windows_backend sandbox_host) quiet_run
                        windows_sandbox_low setup_exe True)))) = ''low''
   \<and> execute_isolated (windows_backend sandbox_host) setup_copy ''low''
       = Inr (RPair (ProcHandle \<lparr>pid = 4242\<rparr>) (PDict (output_dict [] [] 0)))
   \<and> execute_isolated (windows_backend sandbox_host) setup_copy ''high''
       = Inr (RPair (ProcHandle \<lparr>pid = 5151\<rparr>)
                (PDict (output_dict ''Executed in Windows Sandbox - output not available'' [] 0)))"
  by code_simp


section \<open>Deduplication of activity records\<close>

lemma any_key_equals_keyed:
  "None \<notin> set (keys_of k ds) \<Longrightarrow> any_key_equals k v ds = Inr (Some v \<in> set (keys_of k ds))"
  by (induction ds) (auto simp: keys_of_def split: option.splits)

lemma any_key_equals_False:
  "any_key_equals k v ds = Inr False \<Longrightarrow> Some v \<notin> set (keys_of k ds)"
  by (induction ds) (auto simp: keys_of_def split: option.splits if_splits)

lemma any_get_equals_keys: "any_get_equals k v ds = (Some v \<in> set (keys_of k ds))"
  by (force simp: any_get_equals_def keys_of_def)

lemma file_loop_others:
  "network_connections (file_activity_loop files s) = network_connections s
   \<and> registry_activities (file_activity_loop files s) = registry_activities s"
  by (induction files arbitrary: s) (auto split: sum.splits)

lemma file_loop_distinct:
  "distinct (keys_of ''path'' (file_accesses s))
    \<Longrightarrow> distinct (keys_of ''path'' (file_accesses (file_activity_loop files s)))"
proof (induction files arbitrary: s)
  case Nil
  then show ?case by simp
next
  case (Cons f files)
  obtain now p where f: "f = (now, p)" by (cases f)
  show ?case
  proof (cases "any_key_equals ''path'' p (file_accesses s)")
    case (Inl e)
    with Cons.prems f show ?thesis by simp
  next
    case (Inr seen)
    show ?thesis
    proof (cases seen)
      case True
      with Inr f Cons show ?thesis by simp
    next
      case False
      with Inr have "Some p \<notin> set (keys_of ''path'' (file_accesses s))"
        by (simp add: any_key_equals_False)
      with Cons.prems have "distinct (keys_of ''path''
           (file_accesses s @ [[(''timestamp'', now), (''path'', p)]]))"
        by (simp add: keys_of_def)
      with Inr False f show ?thesis
        by (simp add: Cons.IH)
    qed
  qed
qed

lemma file_loop_keyed:
  "None \<notin> set (keys_of ''path'' (file_accesses s))
    \<Longrightarrow> None \<notin> set (keys_of ''path'' (file_accesses (file_activity_loop files s)))"
proof (induction files arbitrary: s)
  case Nil
  then show ?case by simp
next
  case (Cons f files)
  obtain now p where f: "f = (now, p)" by (cases f)
  have "None \<notin> set (keys_of ''path'' (file_accesses s @ [[(''timestamp'', now), (''path'', p)]]))"
    using Cons.prems by (simp add: keys_of_def)
  then show ?case
    using Cons.prems f by (simp add: any_key_equals_keyed Cons.IH)
qed

lemma file_loop_keeps:
  "None \<notin> set (keys_of ''path'' (file_accesses s))
    \<Longrightarrow> set (keys_of ''path'' (file_accesses (file_activity_loop files s)))
          = set (keys_of ''path'' (file_accesses s)) \<union> Some ` snd ` set files"
proof (induction files arbitrary: s)
  case Nil
  then show ?case by simp
next
  case (Cons f files)
  obtain now p where f: "f = (now, p)" by (cases f)
  let ?s' = "s\<lparr>file_accesses := file_accesses s @ [[(''timestamp'', now), (''path'', p)]],
                m_threat_score := add_points 10 suspicious_files p (m_threat_score s)\<rparr>"
  have k: "None \<notin> set (keys_of ''path'' (file_accesses ?s'))"
    using Cons.prems by (simp add: keys_of_def)
  show ?case
    using Cons.prems f Cons.IH [OF k] Cons.IH [OF Cons.prems]
    by (auto simp: any_key_equals_keyed keys_of_def)
qed

lemma file_loop_repeat:
  assumes "None \<notin> set (keys_of ''path'' (file_accesses s))"
    and "Some p \<in> set (keys_of ''path'' (file_accesses s))"
  shows "file_activity_loop [(now, p)] s = s"
  using assms by (simp add: any_key_equals_keyed)


lemma network_loop_others:
  "file_accesses (network_activity_loop conns s) = file_accesses s
   \<and> registry_activities (network_activity_loop conns s) = registry_activities s"
  by (induction conns arbitrary: s) (auto simp: Let_def split: sum.splits)

lemma network_loop_distinct:
  "distinct (keys_of ''remote'' (network_connections s))
    \<Longrightarrow> distinct (keys_of ''remote'' (network_connections (network_activity_loop conns s)))"
proof (induction conns arbitrary: s)
  case Nil
  then show ?case by simp
next
  case (Cons c conns)
  obtain now conn where c: "c = (now, conn)" by (cases c)
  show ?case
  proof (cases "status conn = ''ESTABLISHED'' \<and> raddr conn \<noteq> None")
    case False
    with Cons c show ?thesis by auto
  next
    case est: True
    let ?remote = "remote_of (the (raddr conn))"
    show ?thesis
    proof (cases "any_key_equals ''remote'' ?remote (network_connections s)")
      case (Inl e)
      with Cons.prems c est show ?thesis by (simp add: Let_def)
    next
      case (Inr seen)
      show ?thesis
      proof (cases seen)
        case True
        with Inr c est Cons.prems show ?thesis by (simp add: Let_def Cons.IH)
      next
        case False
        with Inr have "Some ?remote \<notin> set (keys_of ''remote'' (network_connections s))"
          by (simp add: any_key_equals_False)
        with Cons.prems have "distinct (keys_of ''remote''
             (network_connections s @ [[(''timestamp'', now), (''remote'', ?remote)]]))"
          by (simp add: keys_of_def)
        with Inr False c est show ?thesis
          by (simp add: Let_def Cons.IH)
      qed
    qed
  qed
qed

lemma network_loop_keyed:
  "None \<notin> set (keys_of ''remote'' (network_connections s))
    \<Longrightarrow> None \<notin> set (keys_of ''remote'' (network_connections (network_activity_loop conns s)))"
proof (induction conns arbitrary: s)
  case Nil
  then show ?case by simp
next
  case (Cons c conns)
  obtain now conn where c: "c = (now, conn)" by (cases c)
  have "None \<notin> set (keys_of ''remote''
          (network_connections s @ [[(''timestamp'', now), (''remote'', r)]]))" for r
    using Cons.prems by (simp add: keys_of_def)
  then show ?case
    using Cons.prems c by (simp add: any_key_equals_keyed Cons.IH Let_def)
qed

lemma network_loop_repeat:
  assumes "None \<notin> set (keys_of ''remote'' (network_connections s))"
    and "Some (remote_of addr) \<in> set (keys_of ''remote'' (network_connections s))"
  shows "network_connections
           (network_activity_loop [(now, \<lparr>status = ''ESTABLISHED'', raddr = Some addr\<rparr>)] s)
         = network_connections s"
  using assms by (simp add: any_key_equals_keyed Let_def)

lemma registry_loop_others:
  "file_accesses (registry_activity_loop dlls s) = file_accesses s
   \<and> network_connections (registry_activity_loop dlls s) = network_connections s"
  by (induction dlls arbitrary: s) (auto simp: Let_def)

lemma registry_loop_distinct:
  "distinct (keys_of ''dll'' (registry_activities s))
    \<Longrightarrow> distinct (keys_of ''dll'' (registry_activities (registry_activity_loop dlls s)))"
proof (induction dlls arbitrary: s)
  case Nil
  then show ?case by simp
next
  case (Cons d dlls)
  obtain now dll where d: "d = (now, dll)" by (cases d)
  have "distinct (keys_of ''dll'' (registry_activities s
          @ [[(''timestamp'', now), (''dll'', lower dll), (''key'', hd suspicious_registry)]]))"
    if "Some (lower dll) \<notin> set (keys_of ''dll'' (registry_activities s))"
    using that Cons.prems by (simp add: keys_of_def)
  then show ?case
    using Cons.prems d by (simp add: Let_def any_get_equals_keys Cons.IH)
qed

lemma registry_loop_repeat:
  assumes "Some (lower dll) \<in> set (keys_of ''dll'' (registry_activities s))"
  shows "registry_activity_loop [(now, dll)] s = s"
  using assms by (simp add: Let_def any_get_equals_keys)

lemma tick_invariant:
  assumes "no_duplicate_keys s" and "all_keyed s"
  shows "no_duplicate_keys (tick sys smp s) \<and> all_keyed (tick sys smp s)"
proof -
  let ?s1 = "monitor_file_activity smp s"
  let ?s2 = "monitor_network_activity smp ?s1"
  have 1: "no_duplicate_keys ?s1 \<and> all_keyed ?s1"
    using assms file_loop_others file_loop_distinct file_loop_keyed
    by (auto simp: monitor_file_activity_def no_duplicate_keys_def all_keyed_def
          split: sum.splits)
  have 2: "no_duplicate_keys ?s2 \<and> all_keyed ?s2"
    using 1 network_loop_others network_loop_distinct network_loop_keyed
    by (auto simp: monitor_network_activity_def no_duplicate_keys_def all_keyed_def
          split: sum.splits)
  have 3: "no_duplicate_keys (monitor_registry_activity smp ?s2)
           \<and> all_keyed (monitor_registry_activity smp ?s2)"
    using 2 registry_loop_others registry_loop_distinct
    by (auto simp: monitor_registry_activity_def no_duplicate_keys_def all_keyed_def
          split: sum.splits)
  from 2 3 show ?thesis
    by (simp add: tick_def Let_def)
qed

lemma monitor_process_invariant:
  "no_duplicate_keys s \<Longrightarrow> all_keyed s
    \<Longrightarrow> no_duplicate_keys (monitor_process sys smps s) \<and> all_keyed (monitor_process sys smps s)"
  by (induction smps arbitrary: s) (auto simp: tick_invariant)

lemma init_invariant: "no_duplicate_keys ProcessMonitor_init \<and> all_keyed ProcessMonitor_init"
  by (simp add: no_duplicate_keys_def all_keyed_def ProcessMonitor_init_def keys_of_def)

lemma count_one:
  assumes "distinct (keys_of k rs)" and "Some v \<in> set (keys_of k rs)"
  shows "length (filter (\<lambda>d. map_of d k = Some v) rs) = 1"
proof -
  have "distinct (map f xs)
          \<Longrightarrow> length (filter (\<lambda>d. f d = w) xs) = (if w \<in> f ` set xs then 1 else 0)"
    for f :: "py_dict \<Rightarrow> string option" and xs w
    by (induction xs) auto
  from this [of "\<lambda>d. map_of d k" rs "Some v"] assms show ?thesis
    by (simp add: keys_of_def)
qed

text \<open>
  C6. In every state that the polling loop reaches from a fresh monitor, no two file
  records share a path, no two network records share a remote endpoint and no two
  registry records share a dll path, and one more tick keeps it so. A path that was
  observed has exactly one record however often it is observed. Observing a recorded
  path again changes nothing in the monitor; observing a recorded endpoint or dll again
  leaves the records as they are, so the first record, with its timestamp, stays.
\<close>
theorem monitoring_deduplicates:
  assumes "s = monitor_process sys smps ProcessMonitor_init"
  shows "no_duplicate_keys s
         \<and> no_duplicate_keys (tick sys smp s)
         \<and> (p \<in> snd ` set files \<longrightarrow>
              length (filter (\<lambda>d. map_of d ''path'' = Some p)
                        (file_accesses (file_activity_loop files s))) = 1)
         \<and> (Some p \<in> set (keys_of ''path'' (file_accesses s)) \<longrightarrow>
              file_activity_loop [(now, p)] s = s)
         \<and> (Some (remote_of addr) \<in> set (keys_of ''remote'' (network_connections s)) \<longrightarrow>
              network_connections
                (network_activity_loop [(now, \<lparr>status = ''ESTABLISHED'', raddr = Some addr\<rparr>)] s)
              = network_connections s)
         \<and> (Some (lower dll) \<in> set (keys_of ''dll'' (registry_activities s)) \<longrightarrow>
              registry_activity_loop [(now, dll)] s = s)"
proof -
  have inv: "no_duplicate_keys s" and keyed: "all_keyed s"
    using monitor_process_invariant [of ProcessMonitor_init sys smps] init_invariant assms
    by simp_all
  have kp: "None \<notin> set (keys_of ''path'' (file_accesses s))"
    and kr: "None \<notin> set (keys_of ''remote'' (network_connections s))"
    using keyed by (simp_all add: all_keyed_def)
  have c2: "no_duplicate_keys (tick sys smp s)"
    using tick_invariant [OF inv keyed] by blast
  have c3: "length (filter (\<lambda>d. map_of d ''path'' = Some p)
                        (file_accesses (file_activity_loop files s))) = 1"
    if "p \<in> snd ` set files"
  proof (rule count_one)
    show "distinct (keys_of ''path'' (file_accesses (file_activity_loop files s)))"
      using inv by (simp add: no_duplicate_keys_def file_loop_distinct)
    show "Some p \<in> set (keys_of ''path'' (file_accesses (file_activity_loop files s)))"
      using that by (simp add: file_loop_keeps [OF kp])
  qed
  from inv c2 c3 file_loop_repeat [OF kp] network_loop_repeat [OF kr] registry_loop_repeat
  show ?thesis by blast
qed

theorem monitoring_deduplicates_witness:
  "no_duplicate_keys (monitor_process Linux [passwd_sample, passwd_sample] ProcessMonitor_init)
   \<and> length (filter (\<lambda>d. map_of d ''path'' = Some ''/etc/passwd'')
               (file_accesses
                  (file_activity_loop
                     [(''2024-01-01T10:00:01'', ''/etc/passwd''),
                      (''2024-01-01T10:00:02'', ''/etc/passwd'')]
                     (monitor_process Linux [passwd_sample] ProcessMonitor_init)))) = 1
   \<and> file_activity_loop [(''2024-01-01T10:00:01'', ''/etc/passwd'')]
         (monitor_process Linux [passwd_sample] ProcessMonitor_init)
       = monitor_process Linux [passwd_sample] ProcessMonitor_init
   \<and> network_connections
         (network_activity_loop
            [(''2024-01-01T10:00:01'', \<lparr>status = ''ESTABLISHED'', raddr = Some (''10.0.0.1'', 4444)\<rparr>)]
            (monitor_process Linux [beacon_sample] ProcessMonitor_init))
       = network_connections (monitor_process Linux [beacon_sample] ProcessMonitor_init)"
proof -
  have m: "''/etc/passwd'' \<in> snd ` set [(''2024-01-01T10:00:01'', ''/etc/passwd''),
                                          (''2024-01-01T10:00:02'', ''/etc/passwd'')]"
    by simp
  have k: "Some ''/etc/passwd''
             \<in> set (keys_of ''path''
                      (file_accesses (monitor_process Linux [passwd_sample] ProcessMonitor_init)))"
    by (simp add: tick_def monitor_file_activity_def monitor_network_activity_def
          passwd_sample_def ProcessMonitor_init_def Let_def keys_of_def)
  have n: "Some (remote_of (''10.0.0.1'', 4444))
             \<in> set (keys_of ''remote''
                      (network_connections
                         (monitor_process Linux [beacon_sample] ProcessMonitor_init)))"
    by (simp add: tick_def monitor_file_activity_def monitor_network_activity_def
          beacon_sample_def ProcessMonitor_init_def Let_def keys_of_def)
  have a: "no_duplicate_keys
             (monitor_process Linux [passwd_sample, passwd_sample] ProcessMonitor_init)"
    using monitoring_deduplicates [OF refl] by blast
  have b: "length (filter (\<lambda>d. map_of d ''path'' = Some ''/etc/passwd'')
               (file_accesses
                  (file_activity_loop
                     [(''2024-01-01T10:00:01'', ''/etc/passwd''),
                      (''2024-01-01T10:00:02'', ''/etc/passwd'')]
                     (monitor_process Linux [passwd_sample] ProcessMonitor_init)))) = 1"
    using monitoring_deduplicates [OF refl] m by blast
  have c: "file_activity_loop [(''2024-01-01T10:00:01'', ''/etc/passwd'')]
         (monitor_process Linux [passwd_sample] ProcessMonitor_init)
       = monitor_process Linux [passwd_sample] ProcessMonitor_init"
    using monitoring_deduplicates [OF refl] k by blast
  have d: "network_connections
         (network_activity_loop
            [(''2024-01-01T10:00:01'', \<lparr>status = ''ESTABLISHED'', raddr = Some (''10.0.0.1'', 4444)\<rparr>)]
            (monitor_process Linux [beacon_sample] ProcessMonitor_init))
       = network_connections (monitor_process Linux [beacon_sample] ProcessMonitor_init)"
    using monitoring_deduplicates [OF refl] n by blast
  from a b c d show ?thesis by blast
qed


section \<open>Scoring of network connections\<close>

text \<open>
  C7 fails on the code. The same established connection to port 4444 is seen on two
  ticks: it is recorded once, but the pattern loop runs on each tick, since it is not
  inside the \<open>if not any(...)\<close> block, and the score is 40 after the second tick. The file
  loop, whose pattern loop is inside the block, scores a path seen on two ticks once.
\<close>
theorem repeated_connection_scores_again:
  "m_threat_score (monitor_process Linux [beacon_sample] ProcessMonitor_init) = 20
   \<and> m_threat_score (monitor_process Linux [beacon_sample, beacon_sample] ProcessMonitor_init) = 40
   \<and> network_connections
        (monitor_process Linux [beacon_sample, beacon_sample] ProcessMonitor_init)
       = [[(''timestamp'', ''2024-01-01T10:00:00''), (''remote'', ''10.0.0.1:4444'')]]
   \<and> m_threat_score (monitor_process Linux [passwd_sample, passwd_sample] ProcessMonitor_init) = 10"
proof -
  have r: "remote_of (''10.0.0.1'', 4444) = ''10.0.0.1:4444''"
    by (simp add: remote_of_def str_nat.simps digit_char_def)
  show ?thesis
    by (simp add: tick_def monitor_file_activity_def monitor_network_activity_def
          beacon_sample_def passwd_sample_def ProcessMonitor_init_def Let_def r
          suspicious_network_def suspicious_files_def backslash_def)
qed


section \<open>Construction of the scan pipeline\<close>

lemma get_isolation_environment_error:
  "snd (get_isolation_environment b method level) = Inl e \<Longrightarrow> e = no_isolation"
  by (auto simp: get_isolation_environment_def Let_def split: if_splits)

lemma get_isolation_environment_unavailable:
  assumes "\<not> is_available b (ContainerIsolation level)"
    and "\<not> is_available b (ProcessIsolation level)"
  shows "snd (get_isolation_environment b method level) = Inl no_isolation"
  using assms by (simp add: get_isolation_environment_def Let_def)

lemma get_isolation_environment_available:
  "snd (get_isolation_environment b method level) = Inr ienv \<Longrightarrow> is_available b ienv"
  by (auto simp: get_isolation_environment_def Let_def split: if_splits)

lemma ThreatDetector_init_fst:
  "fst (ThreatDetector_init b level m)
     = fst (get_isolation_environment b
              (case m of None \<Rightarrow> ''container'' | Some x \<Rightarrow> if x = [] then ''container'' else x) level)"
  by (cases "get_isolation_environment b
              (case m of None \<Rightarrow> ''container'' | Some x \<Rightarrow> if x = [] then ''container'' else x) level")
     (simp add: ThreatDetector_init_def Let_def split: sum.splits)

lemma ThreatDetector_init_Inl:
  "snd (get_isolation_environment b
          (case m of None \<Rightarrow> ''container'' | Some x \<Rightarrow> if x = [] then ''container'' else x) level)
     = Inl e
    \<Longrightarrow> snd (ThreatDetector_init b level m) = Inl e"
  by (cases "get_isolation_environment b
              (case m of None \<Rightarrow> ''container'' | Some x \<Rightarrow> if x = [] then ''container'' else x) level")
     (simp add: ThreatDetector_init_def Let_def split: sum.splits)

lemma ThreatDetector_init_Inr:
  "snd (ThreatDetector_init b level m) = Inr td
    \<Longrightarrow> snd (get_isolation_environment b
          (case m of None \<Rightarrow> ''container'' | Some x \<Rightarrow> if x = [] then ''container'' else x) level)
         = Inr (td_isolation_env td)"
  by (cases "get_isolation_environment b
              (case m of None \<Rightarrow> ''container'' | Some x \<Rightarrow> if x = [] then ''container'' else x) level")
     (auto simp: ThreatDetector_init_def Let_def split: sum.splits)

lemma Sandbox_init_detector_raises:
  assumes "snd (ThreatDetector_init b level (Some method)) = Inl e"
  shows "snd (Sandbox_init env b method level) = Inl e"
proof -
  obtain probed where "ThreatDetector_init b level (Some method) = (probed, Inl e)"
    using assms by (cases "ThreatDetector_init b level (Some method)") simp
  then show ?thesis by (simp add: Sandbox_init_def)
qed

lemma Sandbox_init_selection_raises:
  assumes "snd (get_isolation_environment b method level) = Inl e"
  shows "snd (Sandbox_init env b method level) = Inl e"
proof (cases "snd (ThreatDetector_init b level (Some method))")
  case (Inl e')
  have "snd (get_isolation_environment b (if method = [] then ''container'' else method) level)
          \<noteq> Inr ienv" for ienv
  proof
    assume "snd (get_isolation_environment b (if method = [] then ''container'' else method) level)
              = Inr ienv"
    then obtain probed where "get_isolation_environment b
        (if method = [] then ''container'' else method) level = (probed, Inr ienv)"
      by (cases "get_isolation_environment b (if method = [] then ''container'' else method) level")
         simp
    then have "\<exists>td. snd (ThreatDetector_init b level (Some method)) = Inr td"
      by (simp add: ThreatDetector_init_def)
    with Inl show False by simp
  qed
  then obtain e'' where
    "snd (get_isolation_environment b (if method = [] then ''container'' else method) level) = Inl e''"
    by (cases "snd (get_isolation_environment b (if method = [] then ''container'' else method) level)")
       auto
  then have "snd (ThreatDetector_init b level (Some method)) = Inl e''" and "e'' = no_isolation"
    using ThreatDetector_init_Inl [of b "Some method" level e''] get_isolation_environment_error
    by auto
  moreover have "e = no_isolation"
    using assms by (rule get_isolation_environment_error)
  ultimately show ?thesis
    using Sandbox_init_detector_raises by simp
next
  case (Inr td)
  then obtain p1 where t: "ThreatDetector_init b level (Some method) = (p1, Inr td)"
    by (cases "ThreatDetector_init b level (Some method)") simp
  obtain p2 where g: "get_isolation_environment b method level = (p2, Inl e)"
    using assms by (cases "get_isolation_environment b method level") simp
  show ?thesis by (simp add: Sandbox_init_def t g)
qed

lemma Sandbox_init_Inr:
  assumes "snd (Sandbox_init env b method level) = Inr sb"
  shows "fst (Sandbox_init env b method level)
           = fst (get_isolation_environment b method level)
             @ fst (get_isolation_environment b method level)
         \<and> is_available b (isolation_env sb)
         \<and> is_available b (td_isolation_env (threat_detector sb))"
proof -
  obtain p1 r1 where t: "ThreatDetector_init b level (Some method) = (p1, r1)"
    by (cases "ThreatDetector_init b level (Some method)")
  obtain p2 r2 where g: "get_isolation_environment b method level = (p2, r2)"
    by (cases "get_isolation_environment b method level")
  from assms t obtain td where r1: "r1 = Inr td"
    by (cases r1) (simp_all add: Sandbox_init_def)
  from assms t g r1 obtain ienv where r2: "r2 = Inr ienv"
    by (cases r2) (simp_all add: Sandbox_init_def)
  have ne: "method \<noteq> []"
  proof
    assume "method = []"
    then have "snd (get_isolation_environment b method level) = Inl no_isolation"
      by (simp add: get_isolation_environment_def Let_def lower_def)
    with g r2 show False by simp
  qed
  have p: "p1 = p2"
    using ThreatDetector_init_fst [of b level "Some method"] t g ne by simp
  have a1: "is_available b ienv"
    using get_isolation_environment_available [of b "method" level ienv] g r2 by simp
  have "snd (get_isolation_environment b method level) = Inr (td_isolation_env td)"
    using ThreatDetector_init_Inr [of b level "Some method" td] t r1 ne by simp
  then have a2: "is_available b (td_isolation_env td)"
    by (rule get_isolation_environment_available)
  have sb: "isolation_env sb = ienv \<and> threat_detector sb = td"
    using assms t g r1 r2 by (auto simp: Sandbox_init_def Let_def)
  show ?thesis
    using t g r1 r2 p a1 a2 sb by (simp add: Sandbox_init_def)
qed

text \<open>
  C10. Both constructors run the selection of an isolation environment and raise what it
  raises. When neither variant is available, constructing a threat detector (with any
  method, or none) and constructing a sandbox both raise the no-isolation error, so no
  object exists on which an analysis could be called. A sandbox that is constructed has
  probed twice, once for its detector and once for itself, and holds two available
  environments.
\<close>
theorem constructors_need_isolation:
  "(\<not> is_available b (ContainerIsolation level) \<and> \<not> is_available b (ProcessIsolation level)
      \<longrightarrow> snd (ThreatDetector_init b level m) = Inl no_isolation
          \<and> snd (Sandbox_init env b method level) = Inl no_isolation)
   \<and> fst (ThreatDetector_init b level (Some method))
       = fst (get_isolation_environment b (if method = [] then ''container'' else method) level)
   \<and> (snd (get_isolation_environment b (if method = [] then ''container'' else method) level)
        = Inl e
      \<longrightarrow> snd (ThreatDetector_init b level (Some method)) = Inl e
          \<and> snd (Sandbox_init env b method level) = Inl e)
   \<and> (snd (get_isolation_environment b method level) = Inl e
      \<longrightarrow> snd (Sandbox_init env b method level) = Inl e)
   \<and> (\<forall>sb. snd (Sandbox_init env b method level) = Inr sb \<longrightarrow>
         fst (Sandbox_init env b method level)
           = fst (get_isolation_environment b method level)
             @ fst (get_isolation_environment b method level)
         \<and> is_available b (isolation_env sb)
         \<and> is_available b (td_isolation_env (threat_detector sb)))"
proof -
  have c1: "snd (ThreatDetector_init b level m) = Inl no_isolation
          \<and> snd (Sandbox_init env b method level) = Inl no_isolation"
    if "\<not> is_available b (ContainerIsolation level) \<and> \<not> is_available b (ProcessIsolation level)"
  proof -
    have u: "snd (get_isolation_environment b x level) = Inl no_isolation" for x
      using that by (simp add: get_isolation_environment_unavailable)
    from u have "snd (ThreatDetector_init b level m) = Inl no_isolation"
      by (rule ThreatDetector_init_Inl)
    moreover from u have "snd (Sandbox_init env b method level) = Inl no_isolation"
      by (rule Sandbox_init_selection_raises)
    ultimately show ?thesis by blast
  qed
  have c2: "fst (ThreatDetector_init b level (Some method))
       = fst (get_isolation_environment b (if method = [] then ''container'' else method) level)"
    using ThreatDetector_init_fst [of b level "Some method"] by simp
  have c3: "snd (ThreatDetector_init b level (Some method)) = Inl e
          \<and> snd (Sandbox_init env b method level) = Inl e"
    if "snd (get_isolation_environment b (if method = [] then ''container'' else method) level)
          = Inl e"
  proof -
    have "snd (ThreatDetector_init b level (Some method)) = Inl e"
      using ThreatDetector_init_Inl [of b "Some method" level e] that by simp
    then show ?thesis
      using Sandbox_init_detector_raises by blast
  qed
  from c1 c2 c3 Sandbox_init_selection_raises [of b "method" level e env] Sandbox_init_Inr [of env b "method" level]
  show ?thesis by blast
qed

theorem constructors_need_isolation_witness:
  "snd (ThreatDetector_init no_backend ''medium'' None) = Inl no_isolation
   \<and> snd (Sandbox_init demo_env no_backend ''container'' ''medium'') = Inl no_isolation
   \<and> fst (Sandbox_init demo_env process_only_backend ''process'' ''low'') = [Process, Process]"
proof -
  have u: "\<not> is_available no_backend (ContainerIsolation ''medium'')
           \<and> \<not> is_available no_backend (ProcessIsolation ''medium'')"
    by (simp add: is_available_ContainerIsolation is_available_ProcessIsolation no_backend_def
          process_only_backend_def linux_backend_def firejail_host_def)
  have ok: "snd (Sandbox_init demo_env process_only_backend ''process'' ''low'') = Inr demo_sandbox"
    by code_simp
  have g: "fst (get_isolation_environment process_only_backend ''process'' ''low'') = [Process]"
    by code_simp
  have a: "snd (ThreatDetector_init no_backend ''medium'' None) = Inl no_isolation
           \<and> snd (Sandbox_init demo_env no_backend ''container'' ''medium'') = Inl no_isolation"
    using constructors_need_isolation [of no_backend "''medium''" None demo_env "''container''"] u
    by blast
  have "fst (Sandbox_init demo_env process_only_backend ''process'' ''low'')
          = fst (get_isolation_environment process_only_backend ''process'' ''low'')
            @ fst (get_isolation_environment process_only_backend ''process'' ''low'')"
    using constructors_need_isolation [of process_only_backend "''low''" _ demo_env "''process''"]
      ok by blast
  with g a show ?thesis by simp
qed

end
